theory Spec2Isabelle
  imports Complex_Main "HOL-Library.Word"
begin

section \<open>Library functions the tool calls\<close>

subsection \<open>Regular expressions (Go package regexp)\<close>

text \<open>
  The fragment of the regexp syntax that the pattern of \<open>captureStats\<close> uses: a literal
  character, a greedy one-or-more repetition of a character class, concatenation and a
  capturing group. Strings are byte sequences; the classes of the pattern are ASCII.
\<close>

datatype regex =
    Lit char
  | PlusClass "char \<Rightarrow> bool"
  | Seq regex regex
  | Group regex

definition is_alpha :: "char \<Rightarrow> bool" where
  \<comment> \<open>the class \<open>[a-zA-Z]\<close>\<close>
  "is_alpha c = (let n = (of_char c :: nat) in (65 \<le> n \<and> n \<le> 90) \<or> (97 \<le> n \<and> n \<le> 122))"

definition is_space :: "char \<Rightarrow> bool" where
  \<comment> \<open>the class \<open>\s\<close>, which the regexp syntax defines as tab, newline, form feed, carriage return, space\<close>
  "is_space c = (let n = (of_char c :: nat) in n = 9 \<or> n = 10 \<or> n = 12 \<or> n = 13 \<or> n = 32)"

definition is_digit :: "char \<Rightarrow> bool" where
  \<comment> \<open>the class \<open>[0-9]\<close>\<close>
  "is_digit c = (let n = (of_char c :: nat) in 48 \<le> n \<and> n \<le> 57)"

text \<open>
  \<open>plus_rests p s\<close>: what is left of \<open>s\<close> after one or more characters of class \<open>p\<close>,
  the longest run first (the repetition is greedy).
\<close>

fun plus_rests :: "(char \<Rightarrow> bool) \<Rightarrow> string \<Rightarrow> string list" where
  "plus_rests p [] = []"
| "plus_rests p (x # xs) = (if p x then plus_rests p xs @ [xs] else [])"

text \<open>
  \<open>rmatch re s\<close>: every way \<open>re\<close> matches a prefix of \<open>s\<close>, as the texts of the capturing
  groups and the rest of \<open>s\<close>, in the order of preference of a leftmost-first matcher.
\<close>

fun rmatch :: "regex \<Rightarrow> string \<Rightarrow> (string list \<times> string) list" where
  "rmatch (Lit c) s = (case s of [] \<Rightarrow> [] | x # xs \<Rightarrow> if x = c then [([], xs)] else [])"
| "rmatch (PlusClass p) s = map (\<lambda>r. ([], r)) (plus_rests p s)"
| "rmatch (Seq a b) s =
     concat (map (\<lambda>(ga, ra). map (\<lambda>(gb, rb). (ga @ gb, rb)) (rmatch b ra)) (rmatch a s))"
| "rmatch (Group a) s = map (\<lambda>(g, r). (take (length s - length r) s # g, r)) (rmatch a s)"

text \<open>
  The leftmost match in \<open>s\<close>: its submatches (the whole match first) and the text after it.
\<close>

fun find_first :: "regex \<Rightarrow> string \<Rightarrow> (string list \<times> string) option" where
  "find_first re [] =
     (case rmatch re [] of [] \<Rightarrow> None | (g, r) # _ \<Rightarrow> Some ([] # g, r))"
| "find_first re (x # xs) =
     (case rmatch re (x # xs) of
        [] \<Rightarrow> find_first re xs
      | (g, r) # _ \<Rightarrow> Some (take (length (x # xs) - length r) (x # xs) # g, r))"

text \<open>
  \<open>FindAllStringSubmatch(s, -1)\<close>: the successive non-overlapping leftmost matches. The
  search resumes where the previous match ended; a match that consumed nothing ends the
  scan here (the pattern of \<open>captureStats\<close> has no empty match).
\<close>

function FindAllStringSubmatch :: "regex \<Rightarrow> string \<Rightarrow> string list list" where
  "FindAllStringSubmatch re s =
     (case find_first re s of
        None \<Rightarrow> []
      | Some (m, r) \<Rightarrow> if length r < length s then m # FindAllStringSubmatch re r else [m])"
  by pat_completeness auto
termination
  by (relation "measure (\<lambda>(re, s). length s)") auto

subsection \<open>Number conversion (Go package strconv)\<close>

definition intSize :: nat where
  \<comment> \<open>the width of Go's \<open>int\<close> on the 64-bit hosts the tool is built for\<close>
  "intSize = 64"

fun dec_value :: "string \<Rightarrow> int \<Rightarrow> int" where
  "dec_value [] acc = acc"
| "dec_value (c # cs) acc = dec_value cs (acc * 10 + (int (of_char c) - 48))"

text \<open>
  \<open>strconv.Atoi\<close>: an optional sign, then one or more decimal digits and nothing else;
  a value that does not fit \<open>int\<close> is an error. \<open>None\<close> stands for the error.
\<close>

definition Atoi :: "string \<Rightarrow> int option" where
  "Atoi s =
     (let neg = (s \<noteq> [] \<and> hd s = CHR ''-'');
          ds = (if s \<noteq> [] \<and> (hd s = CHR ''-'' \<or> hd s = CHR ''+'') then tl s else s)
      in if ds = [] \<or> \<not> list_all is_digit ds then None
         else let v = (if neg then - dec_value ds 0 else dec_value ds 0)
              in if - (2 ^ (intSize - 1)) \<le> v \<and> v < 2 ^ (intSize - 1) then Some v else None)"

section \<open>The parser of the stats output\<close>

definition stats_re :: regex where
  \<comment> \<open>\<open>([a-zA-Z]+):\s+([0-9]+)\<close>\<close>
  "stats_re =
     Seq (Group (PlusClass is_alpha))
       (Seq (Lit CHR '':'') (Seq (PlusClass is_space) (Group (PlusClass is_digit))))"

text \<open>
  The loop of \<open>captureStats\<close> over the matches; the triple is
  \<open>(numFrames, numDraws, numCmds)\<close>, the named results, which start at zero.
\<close>

fun captureStats_loop :: "string list list \<Rightarrow> int \<times> int \<times> int \<Rightarrow> int \<times> int \<times> int" where
  "captureStats_loop [] c = c"
| "captureStats_loop (matches # rest) (numFrames, numDraws, numCmds) =
     (if length matches \<noteq> 3 then captureStats_loop rest (numFrames, numDraws, numCmds)
      else case Atoi (matches ! 2) of
        None \<Rightarrow> captureStats_loop rest (numFrames, numDraws, numCmds)
      | Some n \<Rightarrow>
          if matches ! 1 = ''Frames'' then captureStats_loop rest (n, numDraws, numCmds)
          else if matches ! 1 = ''Draws'' then captureStats_loop rest (numFrames, n, numCmds)
          else if matches ! 1 = ''Commands'' then captureStats_loop rest (numFrames, numDraws, n)
          else captureStats_loop rest (numFrames, numDraws, numCmds))"

definition captureStats_scan :: "string \<Rightarrow> int \<times> int \<times> int" where
  "captureStats_scan stdout = captureStats_loop (FindAllStringSubmatch stats_re stdout) (0, 0, 0)"


section \<open>Data of the tool\<close>

datatype error = Error string

text \<open>The flags of the command line; \<open>root_dir\<close> is the flag \<open>root\<close> and \<open>out_file\<close> the flag \<open>out\<close>.\<close>

record flags =
  root_dir :: string
  verbose :: bool
  incBuild :: bool
  optimize :: bool
  pkg :: string
  out_file :: string
  atSHA :: string
  count :: int

record file_sizes =
  LibGAPII :: int
  LibVkLayerVirtualSwapchain :: int
  GAPIDAarch64APK :: int
  GAPIDArmeabi64APK :: int
  GAPIDX86APK :: int
  GAPID :: int
  GAPIR :: int
  GAPIS :: int
  GAPIT :: int

record capture_stats =
  Frames :: int
  DrawCalls :: int
  Commands :: int

text \<open>
  The struct \<open>stats\<close>. The two times are \<open>float64\<close> seconds, taken here as reals: the
  tool only stores and prints them.
\<close>

record stats =
  SHA :: string
  BuildTime :: real
  IncrementalBuildTime :: real
  FileSizes :: file_sizes
  CaptureStats :: capture_stats

definition new_stats :: "string \<Rightarrow> stats" where
  \<comment> \<open>\<open>stats{SHA: sha}\<close>: every other field has its zero value\<close>
  "new_stats sha =
     \<lparr>SHA = sha, BuildTime = 0, IncrementalBuildTime = 0,
      FileSizes = \<lparr>LibGAPII = 0, LibVkLayerVirtualSwapchain = 0, GAPIDAarch64APK = 0,
        GAPIDArmeabi64APK = 0, GAPIDX86APK = 0, GAPID = 0, GAPIR = 0, GAPIS = 0, GAPIT = 0\<rparr>,
      CaptureStats = \<lparr>Frames = 0, DrawCalls = 0, Commands = 0\<rparr>\<rparr>"

text \<open>
  A changelist as \<open>LogFrom\<close> returns it; \<open>SHA_hex\<close> is the field \<open>SHA\<close> in its rendering
  \<open>SHA.String()\<close>, forty hexadecimal digits, so that the slice \<open>[:6]\<close> is always in range.
\<close>

record ChangeList =
  SHA_hex :: string
  Subject :: string

text \<open>\<open>shell.Cmd\<close>, with the fields the tool sets.\<close>

record Cmd =
  Name :: string
  Args :: "string list"
  Verbosity :: bool
  Dir :: string

section \<open>The world outside the tool\<close>

text \<open>
  What the tool reads and changes outside itself: the files (content and mode by path),
  the branch or revision that is checked out, and the clock in nanoseconds.
\<close>

record file_node =
  bytes :: string
  fmode :: "32 word"

record world =
  fs :: "string \<rightharpoonup> file_node"
  active_branch :: string
  now :: int

text \<open>
  The platform and the collaborators are parameters: the operating system's constants and
  access rules, the random generator, the version-control client (package git of the
  repository) and the runner of child processes (\<open>shell.Cmd.Call\<close>, which runs bazel and
  gapit). A collaborator that acts on the world is any function on worlds.
\<close>

record env =
  GOOS :: string
  TempDir :: string
  Join :: "string list \<Rightarrow> string"
  may_read :: "32 word \<Rightarrow> bool"
  may_write :: "32 word \<Rightarrow> bool"
  umask :: "32 word"
  rand_Int :: "int \<Rightarrow> nat \<times> int"
  os_Getwd :: "world \<Rightarrow> error + string"
  git_New :: "string \<Rightarrow> world \<Rightarrow> error option"
  git_Status :: "string \<Rightarrow> world \<Rightarrow> error + bool"
  git_CurrentBranch :: "string \<Rightarrow> world \<Rightarrow> error + string"
  git_CheckoutBranch :: "string \<Rightarrow> string \<Rightarrow> world \<Rightarrow> error option \<times> world"
  git_LogFrom :: "string \<Rightarrow> string \<Rightarrow> int \<Rightarrow> world \<Rightarrow> error + ChangeList list"
  git_Checkout :: "string \<Rightarrow> string \<Rightarrow> world \<Rightarrow> error option \<times> world"
  shell_Call :: "Cmd \<Rightarrow> world \<Rightarrow> (string \<times> error option) \<times> world"

subsection \<open>Files (Go packages os and ioutil)\<close>

record FileInfo =
  Size :: int
  Mode :: "32 word"

definition Perm :: "32 word \<Rightarrow> 32 word" where
  \<comment> \<open>\<open>FileMode.Perm\<close>: the nine permission bits\<close>
  "Perm m = and m 511"

definition os_Stat :: "world \<Rightarrow> string \<Rightarrow> error + FileInfo" where
  "os_Stat w p =
     (case fs w p of
        None \<Rightarrow> Inl (Error ''no such file or directory'')
      | Some f \<Rightarrow> Inr \<lparr>Size = int (length (bytes f)), Mode = fmode f\<rparr>)"

definition ReadFile :: "env \<Rightarrow> world \<Rightarrow> string \<Rightarrow> error + string" where
  "ReadFile e w p =
     (case fs w p of
        None \<Rightarrow> Inl (Error ''no such file or directory'')
      | Some f \<Rightarrow> if may_read e (fmode f) then Inr (bytes f) else Inl (Error ''permission denied''))"

text \<open>
  \<open>ioutil.WriteFile\<close>: an existing file is truncated and rewritten and keeps its mode;
  a missing one is created with the permissions given, less the umask.
\<close>

definition WriteFile :: "env \<Rightarrow> string \<Rightarrow> string \<Rightarrow> 32 word \<Rightarrow> world \<Rightarrow> error option \<times> world" where
  "WriteFile e p d perm w =
     (case fs w p of
        None \<Rightarrow> (None, w\<lparr>fs := (fs w)(p \<mapsto> \<lparr>bytes = d, fmode = and perm (not (umask e))\<rparr>)\<rparr>)
      | Some f \<Rightarrow>
          if may_write e (fmode f) then (None, w\<lparr>fs := (fs w)(p \<mapsto> f\<lparr>bytes := d\<rparr>)\<rparr>)
          else (Some (Error ''permission denied''), w))"

definition os_Remove :: "string \<Rightarrow> world \<Rightarrow> error option \<times> world" where
  "os_Remove p w =
     (case fs w p of
        None \<Rightarrow> (Some (Error ''no such file or directory''), w)
      | Some f \<Rightarrow> (None, w\<lparr>fs := (fs w)(p := None)\<rparr>))"

subsection \<open>Formatting (Go package fmt)\<close>

function itoa :: "nat \<Rightarrow> string" where
  "itoa n = (if n < 10 then [char_of (48 + n)] else itoa (n div 10) @ [char_of (48 + n mod 10)])"
  by pat_completeness auto
termination
  by (relation "measure id") auto

text \<open>
  A call of \<open>Fprint\<close> or \<open>Fprintf\<close> is kept as its format and its operands; the rendering
  of the operands and the alignment of the columns by text/tabwriter are not modelled.
\<close>

datatype arg = AStr string | AInt int | AFloat real

type_synonym frag = "string \<times> arg list"

definition Seconds :: "int \<Rightarrow> real" where
  \<comment> \<open>\<open>Duration.Seconds\<close>, of a duration in nanoseconds\<close>
  "Seconds d = real_of_int d / 1000000000"

section \<open>The state of a run\<close>

text \<open>
  \<open>calls\<close> records, oldest first, the requests made to the version-control client and to
  the runner of child processes; the tool does not read it.
\<close>

datatype event = EvCheckout string | EvCheckoutBranch string | EvCall Cmd

record state =
  world :: world
  calls :: "event list"
  rnd :: int
  res :: "stats list"
  cur :: stats
  removes :: "string list"
  printed :: "frag list"
  tw :: "frag list"

definition call_Checkout :: "env \<Rightarrow> string \<Rightarrow> string \<Rightarrow> state \<Rightarrow> error option \<times> state" where
  "call_Checkout e g sha st =
     (let (err, w) = git_Checkout e g sha (world st)
      in (err, st\<lparr>world := w, calls := calls st @ [EvCheckout sha]\<rparr>))"

definition call_CheckoutBranch :: "env \<Rightarrow> string \<Rightarrow> string \<Rightarrow> state \<Rightarrow> error option \<times> state" where
  "call_CheckoutBranch e g branch st =
     (let (err, w) = git_CheckoutBranch e g branch (world st)
      in (err, st\<lparr>world := w, calls := calls st @ [EvCheckoutBranch branch]\<rparr>))"

definition call_shell :: "env \<Rightarrow> Cmd \<Rightarrow> state \<Rightarrow> (string \<times> error option) \<times> state" where
  "call_shell e cmd st =
     (let (r, w) = shell_Call e cmd (world st)
      in (r, st\<lparr>world := w, calls := calls st @ [EvCall cmd]\<rparr>))"


section \<open>The tool\<close>

text \<open>
  The functions of \<open>main.go\<close>, each taking the state and returning it. The context
  argument is left out, and so are the calls of \<open>log.I\<close> and \<open>log.W\<close>, which only write
  to the log.
\<close>

subsection \<open>Paths and child processes\<close>

definition dllExt :: "env \<Rightarrow> string \<Rightarrow> string" where
  "dllExt e n =
     (if GOOS e = ''windows'' then n @ ''.dll''
      else if GOOS e = ''darwin'' then n @ ''.dylib''
      else n @ ''.so'')"

definition exeExt :: "env \<Rightarrow> string \<Rightarrow> string" where
  "exeExt e n = (if GOOS e = ''windows'' then n @ ''.exe'' else n)"

definition gapitPath :: "env \<Rightarrow> flags \<Rightarrow> string" where
  "gapitPath e fl = Join e [root_dir fl, ''bazel-bin'', ''pkg'', exeExt e ''gapit'']"

text \<open>\<open>build\<close> returns the time the call took, read off the clock, and the error of the call.\<close>

definition build_cmd :: "flags \<Rightarrow> Cmd" where
  "build_cmd fl =
     (let args = [''build''] @ (if optimize fl then [''-c'', ''opt''] else []) @ [''pkg'']
      in \<lparr>Name = ''bazel'', Args = args, Verbosity = verbose fl, Dir = root_dir fl\<rparr>)"

definition build :: "env \<Rightarrow> flags \<Rightarrow> state \<Rightarrow> (int \<times> error option) \<times> state" where
  "build e fl st =
     (let cmd = build_cmd fl;
          start = now (world st);
          ((out, err), st1) = call_shell e cmd st
      in ((now (world st1) - start, err), st1))"

definition trace_file :: "env \<Rightarrow> string" where
  "trace_file e = Join e [TempDir e, ''gapid-regres.gfxtrace'']"

definition trace_cmd :: "env \<Rightarrow> flags \<Rightarrow> Cmd" where
  "trace_cmd e fl =
     \<lparr>Name = gapitPath e fl,
      Args = [''--log-style'', ''raw'', ''trace'', ''--for'', ''60s'', ''--out'', trace_file e, pkg fl],
      Verbosity = verbose fl, Dir = []\<rparr>"

definition trace :: "env \<Rightarrow> flags \<Rightarrow> state \<Rightarrow> (string \<times> error option) \<times> state" where
  "trace e fl st =
     (let file = trace_file e;
          cmd = trace_cmd e fl;
          ((out, err), st1) = call_shell e cmd st
      in case err of
           Some x \<Rightarrow> (([], Some x), st1\<lparr>world := snd (os_Remove file (world st1))\<rparr>)
         | None \<Rightarrow> ((file, err), st1))"

definition stats_cmd :: "env \<Rightarrow> flags \<Rightarrow> string \<Rightarrow> Cmd" where
  "stats_cmd e fl file =
     \<lparr>Name = gapitPath e fl,
      Args = [''--log-style'', ''raw'', ''--log-level'', ''error'', ''stats'', file],
      Verbosity = verbose fl, Dir = []\<rparr>"

text \<open>
  \<open>captureStats\<close>: the result is \<open>(numFrames, numDraws, numCmds, err)\<close>. The named result
  \<open>err\<close> receives the error of the call; the \<open>err\<close> of the loop is a variable of its own.
\<close>

definition captureStats ::
  "env \<Rightarrow> flags \<Rightarrow> string \<Rightarrow> state \<Rightarrow> (int \<times> int \<times> int \<times> error option) \<times> state" where
  "captureStats e fl file st =
     (let cmd = stats_cmd e fl file;
          ((out, err), st1) = call_shell e cmd st
      in if err \<noteq> None then ((0, 0, 0, None), st1)
         else (let (numFrames, numDraws, numCmds) = captureStats_scan out
               in ((numFrames, numDraws, numCmds, err), st1)))"

subsection \<open>The perturbation of the watched file\<close>

definition glesAPIPath :: "env \<Rightarrow> flags \<Rightarrow> string" where
  "glesAPIPath e fl = Join e [root_dir fl, ''gapis'', ''api'', ''gles'', ''gles.api'']"

text \<open>
  \<open>withTouchedGLES\<close>: both results of \<open>WriteFile\<close> are dropped; the second write is the
  deferred one, with the operands it had when it was deferred.
\<close>

definition withTouchedGLES ::
  "env \<Rightarrow> flags \<Rightarrow> (state \<Rightarrow> error option \<times> state) \<Rightarrow> state \<Rightarrow> error option \<times> state" where
  "withTouchedGLES e fl f st =
     (case os_Stat (world st) (glesAPIPath e fl) of
        Inl err \<Rightarrow> (Some err, st)
      | Inr fi \<Rightarrow>
          (case ReadFile e (world st) (glesAPIPath e fl) of
             Inl err \<Rightarrow> (Some err, st)
           | Inr glesAPI \<Rightarrow>
               (let (n, g) = rand_Int e (rnd st);
                    modGlesAPI = glesAPI @ [CHR 0x0A] @ ''cmd void fake_cmd_'' @ itoa n @ ''() {}'' @ [CHR 0x0A];
                    st1 = st\<lparr>rnd := g,
                            world := snd (WriteFile e (glesAPIPath e fl) modGlesAPI (Perm (Mode fi)) (world st))\<rparr>;
                    (err, st2) = f st1
                in (err, st2\<lparr>world := snd (WriteFile e (glesAPIPath e fl) glesAPI (Perm (Mode fi)) (world st2))\<rparr>))))"

subsection \<open>One revision\<close>

text \<open>How an iteration of the loop of \<open>run\<close> ends: by \<open>return err\<close>, by one of the four
  \<open>continue\<close> statements, or by the \<open>append\<close>.\<close>

datatype outcome = Fatal error | SkipBuild | SkipTrace | SkipStats | SkipTouch | Recorded

definition size_targets :: "env \<Rightarrow> flags \<Rightarrow> (string \<times> (int \<Rightarrow> file_sizes \<Rightarrow> file_sizes)) list" where
  "size_targets e fl =
     (let pkgDir = Join e [root_dir fl, ''bazel-bin'', ''pkg'']
      in [(Join e [pkgDir, ''lib'', dllExt e ''libgapii''], \<lambda>v s. s\<lparr>LibGAPII := v\<rparr>),
          (Join e [pkgDir, ''lib'', dllExt e ''libVkLayer_VirtualSwapchain''],
             \<lambda>v s. s\<lparr>LibVkLayerVirtualSwapchain := v\<rparr>),
          (Join e [pkgDir, ''gapid-aarch64.apk''], \<lambda>v s. s\<lparr>GAPIDAarch64APK := v\<rparr>),
          (Join e [pkgDir, ''gapid-armeabi.apk''], \<lambda>v s. s\<lparr>GAPIDArmeabi64APK := v\<rparr>),
          (Join e [pkgDir, ''gapid-x86.apk''], \<lambda>v s. s\<lparr>GAPIDX86APK := v\<rparr>),
          (Join e [pkgDir, exeExt e ''gapid''], \<lambda>v s. s\<lparr>GAPID := v\<rparr>),
          (Join e [pkgDir, exeExt e ''gapir''], \<lambda>v s. s\<lparr>GAPIR := v\<rparr>),
          (Join e [pkgDir, exeExt e ''gapis''], \<lambda>v s. s\<lparr>GAPIS := v\<rparr>),
          (Join e [pkgDir, exeExt e ''gapit''], \<lambda>v s. s\<lparr>GAPIT := v\<rparr>)])"

fun stat_sizes ::
  "world \<Rightarrow> (string \<times> (int \<Rightarrow> file_sizes \<Rightarrow> file_sizes)) list \<Rightarrow> file_sizes \<Rightarrow> file_sizes" where
  "stat_sizes w [] s = s"
| "stat_sizes w ((path, assign) # rest) s =
     (case os_Stat w path of
        Inl err \<Rightarrow> stat_sizes w rest s
      | Inr fi \<Rightarrow> stat_sizes w rest (assign (Size fi) s))"

definition gather_sizes :: "env \<Rightarrow> flags \<Rightarrow> state \<Rightarrow> state" where
  "gather_sizes e fl st =
     st\<lparr>cur := (cur st)\<lparr>FileSizes := stat_sizes (world st) (size_targets e fl) (FileSizes (cur st))\<rparr>\<rparr>"

text \<open>
  The iteration in three stages. A stage returns \<open>Some\<close> of the way the iteration ends
  there, or \<open>None\<close> when control goes on to the next statement. The index \<open>i\<close> is the
  loop's; the inner \<open>i\<close> of the source is \<open>length cls - 1 - i\<close>.
\<close>

definition build_stage ::
  "env \<Rightarrow> flags \<Rightarrow> ChangeList list \<Rightarrow> nat \<Rightarrow> state \<Rightarrow> outcome option \<times> state" where
  "build_stage e fl cls i st =
     (let cl = cls ! (length cls - 1 - i);
          sha = take 6 (SHA_hex cl)
      in case call_Checkout e (root_dir fl) (SHA_hex cl) (st\<lparr>cur := new_stats sha\<rparr>) of
           (Some err, st1) \<Rightarrow> (Some (Fatal err), st1)
         | (None, st1) \<Rightarrow>
             (case build e fl st1 of
                ((d, Some err), st2) \<Rightarrow> (Some SkipBuild, st2)
              | ((d, None), st2) \<Rightarrow> (None, gather_sizes e fl st2)))"

definition capture_stage :: "env \<Rightarrow> flags \<Rightarrow> state \<Rightarrow> outcome option \<times> state" where
  "capture_stage e fl st =
     (if pkg fl \<noteq> [] then
        (case trace e fl st of
           ((file, Some err), st1) \<Rightarrow> (Some SkipTrace, st1)
         | ((file, None), st1) \<Rightarrow>
             (case captureStats e fl file (st1\<lparr>removes := file # removes st1\<rparr>) of
                ((frames, draws, cmds, Some err), st2) \<Rightarrow> (Some SkipStats, st2)
              | ((frames, draws, cmds, None), st2) \<Rightarrow>
                  (None, st2\<lparr>cur := (cur st2)\<lparr>CaptureStats :=
                     \<lparr>Frames = frames, DrawCalls = draws, Commands = cmds\<rparr>\<rparr>\<rparr>)))
      else (None, st))"

definition rebuild :: "env \<Rightarrow> flags \<Rightarrow> state \<Rightarrow> error option \<times> state" where
  \<comment> \<open>the function literal passed to \<open>withTouchedGLES\<close>\<close>
  "rebuild e fl st =
     (case build e fl st of
        ((duration, None), st1) \<Rightarrow>
          (None, st1\<lparr>cur := (cur st1)\<lparr>IncrementalBuildTime := Seconds duration\<rparr>\<rparr>)
      | ((duration, Some err), st1) \<Rightarrow> (None, st1))"

definition incremental_stage :: "env \<Rightarrow> flags \<Rightarrow> state \<Rightarrow> outcome option \<times> state" where
  "incremental_stage e fl st =
     (if incBuild fl then
        (case withTouchedGLES e fl (rebuild e fl) st of
           (Some err, st1) \<Rightarrow> (Some SkipTouch, st1)
         | (None, st1) \<Rightarrow> (None, st1))
      else (None, st))"

definition iteration :: "env \<Rightarrow> flags \<Rightarrow> ChangeList list \<Rightarrow> nat \<Rightarrow> state \<Rightarrow> outcome \<times> state" where
  "iteration e fl cls i st =
     (case build_stage e fl cls i st of
        (Some out, st1) \<Rightarrow> (out, st1)
      | (None, st1) \<Rightarrow>
          (case capture_stage e fl st1 of
             (Some out, st2) \<Rightarrow> (out, st2)
           | (None, st2) \<Rightarrow>
               (case incremental_stage e fl st2 of
                  (Some out, st3) \<Rightarrow> (out, st3)
                | (None, st3) \<Rightarrow> (Recorded, st3\<lparr>res := res st3 @ [cur st3]\<rparr>))))"

subsection \<open>The run\<close>

fun run_loop :: "env \<Rightarrow> flags \<Rightarrow> ChangeList list \<Rightarrow> nat list \<Rightarrow> state \<Rightarrow> error option \<times> state" where
  "run_loop e fl cls [] st = (None, st)"
| "run_loop e fl cls (i # rest) st =
     (case iteration e fl cls i st of
        (Fatal err, st1) \<Rightarrow> (Some err, st1)
      | (out, st1) \<Rightarrow> run_loop e fl cls rest st1)"

definition tab :: "string \<Rightarrow> string" where
  "tab s = CHR 0x09 # s"

definition print_header :: "flags \<Rightarrow> frag list" where
  "print_header fl =
     [(''sha'', [])]
     @ (if incBuild fl then [(tab '' | incremental_build_time'', [])] else [])
     @ (if pkg fl \<noteq> [] then [(tab '' | commands'', []), (tab '' | draws'', []), (tab '' | frames'', [])]
        else [])
     @ [(tab '' | lib_gapii'', []), (tab '' | lib_swapchain'', []), (tab '' | aarch64.apk'', []),
        (tab '' | armeabi64.apk'', []), (tab '' | x86.apk'', []), (tab '' | gapid'', []),
        (tab '' | gapir'', []), (tab '' | gapis'', []), (tab '' | gapit'' @ [CHR 0x0A], [])]"

definition print_row :: "flags \<Rightarrow> stats \<Rightarrow> frag list" where
  "print_row fl r =
     [(''%v,'', [AStr (SHA r)])]
     @ (if incBuild fl then [(tab ''   %v,'', [AFloat (IncrementalBuildTime r)])] else [])
     @ (if pkg fl \<noteq> [] then
          [(tab ''   %v,'', [AInt (Commands (CaptureStats r))]),
           (tab ''   %v,'', [AInt (DrawCalls (CaptureStats r))]),
           (tab ''   %v,'', [AInt (Frames (CaptureStats r))])]
        else [])
     @ [(tab ''   %v,'', [AInt (LibGAPII (FileSizes r))]),
        (tab ''   %v,'', [AInt (LibVkLayerVirtualSwapchain (FileSizes r))]),
        (tab ''   %v,'', [AInt (GAPIDAarch64APK (FileSizes r))]),
        (tab ''   %v,'', [AInt (GAPIDArmeabi64APK (FileSizes r))]),
        (tab ''   %v,'', [AInt (GAPIDX86APK (FileSizes r))]),
        (tab ''   %v,'', [AInt (GAPID (FileSizes r))]),
        (tab ''   %v,'', [AInt (GAPIR (FileSizes r))]),
        (tab ''   %v,'', [AInt (GAPIS (FileSizes r))]),
        (tab ''   %v'', [AInt (GAPIT (FileSizes r))]),
        ([CHR 0x0A], [])]"

fun print_rows :: "flags \<Rightarrow> stats list \<Rightarrow> frag list \<Rightarrow> frag list" where
  "print_rows fl [] w = w"
| "print_rows fl (r # rest) w = print_rows fl rest (w @ print_row fl r)"

text \<open>
  The report: a line on standard output, then the table written to the tabwriter, which
  the deferred \<open>Flush\<close>, the first of the deferred calls to run, passes to standard output.
\<close>

definition print_report :: "flags \<Rightarrow> state \<Rightarrow> state" where
  "print_report fl st =
     (let st1 = st\<lparr>printed := printed st @ [(''-----------------------'' @ [CHR 0x0A], [])]\<rparr>;
          st2 = st1\<lparr>tw := print_rows fl (res st1) (print_header fl)\<rparr>
      in st2\<lparr>printed := printed st2 @ tw st2, tw := []\<rparr>)"

text \<open>\<open>run\<close> from \<open>LogFrom\<close> to its last statement.\<close>

definition run_main :: "env \<Rightarrow> flags \<Rightarrow> state \<Rightarrow> error option \<times> state" where
  "run_main e fl st =
     (case git_LogFrom e (root_dir fl) (atSHA fl) (count fl) (world st) of
        Inl err \<Rightarrow> (Some err, st)
      | Inr cls \<Rightarrow>
          (case run_loop e fl cls [0..<length cls]
                  (st\<lparr>rnd := now (world st) div 1000000000, res := []\<rparr>) of
             (Some err, st1) \<Rightarrow> (Some err, st1)
           | (None, st1) \<Rightarrow> (None, print_report fl st1)))"

text \<open>\<open>run\<close> up to the \<open>defer\<close> of \<open>CheckoutBranch\<close>: the root in use and the branch found.\<close>

definition prechecks :: "env \<Rightarrow> flags \<Rightarrow> world \<Rightarrow> error + (flags \<times> string)" where
  "prechecks e fl w =
     (case (if root_dir fl = [] then
              (case os_Getwd e w of Inl err \<Rightarrow> Inl err | Inr wd \<Rightarrow> Inr (fl\<lparr>root_dir := wd\<rparr>))
            else Inr fl) of
        Inl err \<Rightarrow> Inl err
      | Inr fl1 \<Rightarrow>
          (case git_New e (root_dir fl1) w of
             Some err \<Rightarrow> Inl err
           | None \<Rightarrow>
               (case git_Status e (root_dir fl1) w of
                  Inl err \<Rightarrow> Inl err
                | Inr clean \<Rightarrow>
                    if \<not> clean then
                      Inl (Error ''Local changes found. Please submit any changes and run again'')
                    else
                      (case git_CurrentBranch e (root_dir fl1) w of
                         Inl err \<Rightarrow> Inl err
                       | Inr branch \<Rightarrow> Inr (fl1, branch)))))"

text \<open>
  The calls deferred in \<open>run\<close> after \<open>Flush\<close>, last deferred first: the removals of the
  trace file (\<open>removes\<close> has the latest at its head), then \<open>CheckoutBranch\<close>, whose result
  is dropped.
\<close>

definition run_deferred :: "env \<Rightarrow> flags \<Rightarrow> string \<Rightarrow> state \<Rightarrow> state" where
  "run_deferred e fl branch st =
     snd (call_CheckoutBranch e (root_dir fl) branch
            (st\<lparr>world := fold (\<lambda>file w. snd (os_Remove file w)) (removes st) (world st),
                removes := []\<rparr>))"

definition run :: "env \<Rightarrow> flags \<Rightarrow> state \<Rightarrow> error option \<times> state" where
  "run e fl st =
     (case prechecks e fl (world st) of
        Inl err \<Rightarrow> (Some err, st)
      | Inr (fl1, branch) \<Rightarrow>
          (case run_main e fl1 (st\<lparr>removes := []\<rparr>) of
             (err, st1) \<Rightarrow> (err, run_deferred e fl1 branch st1)))"

section \<open>What the theorems speak of\<close>

text \<open>The revisions and the branches that the run asked the version-control client for.\<close>

definition checkouts :: "event list \<Rightarrow> string list" where
  "checkouts evs = concat (map (\<lambda>ev. case ev of EvCheckout s \<Rightarrow> [s] | _ \<Rightarrow> []) evs)"

definition branch_checkouts :: "event list \<Rightarrow> string list" where
  "branch_checkouts evs = concat (map (\<lambda>ev. case ev of EvCheckoutBranch b \<Rightarrow> [b] | _ \<Rightarrow> []) evs)"

text \<open>
  The values that the matches \<open>ms\<close> give the counter \<open>name\<close>, in order: those of the
  matches of that word whose digits \<open>Atoi\<close> converts.
\<close>

definition assigned :: "string \<Rightarrow> string list list \<Rightarrow> int list" where
  "assigned name ms =
     map (\<lambda>m. the (Atoi (m ! 2)))
       (filter (\<lambda>m. length m = 3 \<and> m ! 1 = name \<and> Atoi (m ! 2) \<noteq> None) ms)"

subsection \<open>A concrete environment\<close>

text \<open>
  An environment to run the model in: a Linux host, a history of three revisions (the
  newest first, as \<open>LogFrom\<close> lists them), a version-control client that always succeeds,
  and child processes that fail where \<open>fails\<close> says and otherwise print the stats text.
  A trace command leaves an output file behind, also when it fails.
\<close>

definition test_join :: "string list \<Rightarrow> string" where
  "test_join ps = (case ps of [] \<Rightarrow> [] | p # rest \<Rightarrow> foldl (\<lambda>a b. a @ ''/'' @ b) p rest)"

definition test_shell ::
  "(Cmd \<Rightarrow> world \<Rightarrow> bool) \<Rightarrow> Cmd \<Rightarrow> world \<Rightarrow> (string \<times> error option) \<times> world" where
  "test_shell fails cmd w =
     (let w1 = (if ''trace'' \<in> set (Args cmd)
                then w\<lparr>fs := (fs w)(''/tmp/gapid-regres.gfxtrace'' \<mapsto> \<lparr>bytes = ''partial'', fmode = 420\<rparr>)\<rparr>
                else w)
      in if fails cmd w then (([], Some (Error ''exit status 1'')), w1\<lparr>now := now w + 1000000000\<rparr>)
         else ((''Frames: 12 Draws: 5 Commands: 40'', None), w1\<lparr>now := now w + 5000000000\<rparr>))"

definition test_history :: "ChangeList list" where
  "test_history =
     [\<lparr>SHA_hex = ''cccccccccccccccccccccccccccccccccccccccc'', Subject = ''third''\<rparr>,
      \<lparr>SHA_hex = ''bbbbbbbbbbbbbbbbbbbbbbbbbbbbbbbbbbbbbbbb'', Subject = ''second''\<rparr>,
      \<lparr>SHA_hex = ''aaaaaaaaaaaaaaaaaaaaaaaaaaaaaaaaaaaaaaaa'', Subject = ''first''\<rparr>]"

definition test_env :: "(Cmd \<Rightarrow> world \<Rightarrow> bool) \<Rightarrow> env" where
  "test_env fails =
     \<lparr>GOOS = ''linux'', TempDir = ''/tmp'', Join = test_join,
      may_read = (\<lambda>m. bit m 8), may_write = (\<lambda>m. bit m 7), umask = 18,
      rand_Int = (\<lambda>g. (nat g, g + 1)),
      os_Getwd = (\<lambda>w. Inr ''/r''),
      git_New = (\<lambda>g w. None),
      git_Status = (\<lambda>g w. Inr True),
      git_CurrentBranch = (\<lambda>g w. Inr (active_branch w)),
      git_CheckoutBranch = (\<lambda>g b w. (None, w\<lparr>active_branch := b\<rparr>)),
      git_LogFrom = (\<lambda>g start n w. Inr (take (nat n) test_history)),
      git_Checkout = (\<lambda>g sha w. (None, w\<lparr>active_branch := sha\<rparr>)),
      shell_Call = test_shell fails\<rparr>"

definition test_world :: world where
  "test_world =
     \<lparr>fs = [''/r/gapis/api/gles/gles.api'' \<mapsto> \<lparr>bytes = ''api'', fmode = 420\<rparr>,
             ''/r/bazel-bin/pkg/gapit'' \<mapsto> \<lparr>bytes = ''elf'', fmode = 493\<rparr>],
      active_branch = ''master'', now = 0\<rparr>"

definition bare_world :: world where
  \<comment> \<open>a tree without the watched file\<close>
  "bare_world = \<lparr>fs = Map.empty, active_branch = ''master'', now = 0\<rparr>"

definition test_state :: "world \<Rightarrow> state" where
  "test_state w =
     \<lparr>world = w, calls = [], rnd = 0, res = [], cur = new_stats [], removes = [], printed = [], tw = []\<rparr>"

definition test_flags :: "bool \<Rightarrow> string \<Rightarrow> flags" where
  "test_flags inc p =
     \<lparr>root_dir = ''/r'', verbose = False, incBuild = inc, optimize = False, pkg = p,
      out_file = [], atSHA = [], count = 3\<rparr>"

definition never :: "Cmd \<Rightarrow> world \<Rightarrow> bool" where
  "never cmd w = False"

definition bad_build :: "Cmd \<Rightarrow> world \<Rightarrow> bool" where
  \<comment> \<open>the build of the second revision fails\<close>
  "bad_build cmd w = (Name cmd = ''bazel'' \<and> active_branch w = ''bbbbbbbbbbbbbbbbbbbbbbbbbbbbbbbbbbbbbbbb'')"

definition bad_trace :: "Cmd \<Rightarrow> world \<Rightarrow> bool" where
  "bad_trace cmd w = (''trace'' \<in> set (Args cmd))"

definition bad_stats :: "Cmd \<Rightarrow> world \<Rightarrow> bool" where
  "bad_stats cmd w = (''stats'' \<in> set (Args cmd))"

section \<open>Auxiliary facts\<close>

subsection \<open>The parser\<close>

lemma assigned_Nil: "assigned name [] = []"
  by (simp add: assigned_def)

lemma assigned_Cons:
  "assigned name (m # ms) =
     (if length m = 3 \<and> m ! 1 = name \<and> Atoi (m ! 2) \<noteq> None
      then the (Atoi (m ! 2)) # assigned name ms else assigned name ms)"
  by (simp add: assigned_def)

lemma last_skip_head: "last (a # b # xs) = last (b # xs)"
  by simp

lemma captureStats_loop_last:
  "captureStats_loop ms (f, d, c) =
     (last (f # assigned ''Frames'' ms), last (d # assigned ''Draws'' ms),
      last (c # assigned ''Commands'' ms))"
proof (induction ms arbitrary: f d c)
  case Nil
  show ?case by (simp add: assigned_Nil)
next
  case (Cons m ms)
  show ?case
  proof (cases "length m = 3 \<and> Atoi (m ! 2) \<noteq> None")
    case False
    then show ?thesis using Cons.IH [of f d c] by (auto simp: assigned_Cons)
  next
    case True
    then obtain n where n: "Atoi (m ! 2) = Some n" by auto
    show ?thesis using True n Cons.IH
      by (simp add: assigned_Cons del: last.simps add: last_skip_head)
  qed
qed

subsection \<open>What each call leaves alone\<close>

lemma checkouts_simps [simp]:
  "checkouts [] = []"
  "checkouts (xs @ ys) = checkouts xs @ checkouts ys"
  "checkouts (EvCheckout s # xs) = s # checkouts xs"
  "checkouts (EvCheckoutBranch b # xs) = checkouts xs"
  "checkouts (EvCall c # xs) = checkouts xs"
  by (simp_all add: checkouts_def)

lemma branch_checkouts_simps [simp]:
  "branch_checkouts [] = []"
  "branch_checkouts (xs @ ys) = branch_checkouts xs @ branch_checkouts ys"
  "branch_checkouts (EvCheckout s # xs) = branch_checkouts xs"
  "branch_checkouts (EvCheckoutBranch b # xs) = b # branch_checkouts xs"
  "branch_checkouts (EvCall c # xs) = branch_checkouts xs"
  by (simp_all add: branch_checkouts_def)

lemma call_shell_sel [simp]:
  "fst (call_shell e c st) = fst (shell_Call e c (world st))"
  "world (snd (call_shell e c st)) = snd (shell_Call e c (world st))"
  "calls (snd (call_shell e c st)) = calls st @ [EvCall c]"
  "res (snd (call_shell e c st)) = res st"
  "cur (snd (call_shell e c st)) = cur st"
  "removes (snd (call_shell e c st)) = removes st"
  "printed (snd (call_shell e c st)) = printed st"
  by (simp_all add: call_shell_def case_prod_beta)

lemma call_Checkout_sel [simp]:
  "fst (call_Checkout e g sha st) = fst (git_Checkout e g sha (world st))"
  "world (snd (call_Checkout e g sha st)) = snd (git_Checkout e g sha (world st))"
  "calls (snd (call_Checkout e g sha st)) = calls st @ [EvCheckout sha]"
  "res (snd (call_Checkout e g sha st)) = res st"
  "cur (snd (call_Checkout e g sha st)) = cur st"
  "removes (snd (call_Checkout e g sha st)) = removes st"
  "printed (snd (call_Checkout e g sha st)) = printed st"
  by (simp_all add: call_Checkout_def case_prod_beta)

lemma call_CheckoutBranch_sel [simp]:
  "world (snd (call_CheckoutBranch e g b st)) = snd (git_CheckoutBranch e g b (world st))"
  "calls (snd (call_CheckoutBranch e g b st)) = calls st @ [EvCheckoutBranch b]"
  "res (snd (call_CheckoutBranch e g b st)) = res st"
  "printed (snd (call_CheckoutBranch e g b st)) = printed st"
  by (simp_all add: call_CheckoutBranch_def case_prod_beta)

lemma build_sel [simp]:
  "snd (fst (build e fl st)) = snd (fst (shell_Call e (build_cmd fl) (world st)))"
  "world (snd (build e fl st)) = snd (shell_Call e (build_cmd fl) (world st))"
  "calls (snd (build e fl st)) = calls st @ [EvCall (build_cmd fl)]"
  "res (snd (build e fl st)) = res st"
  "cur (snd (build e fl st)) = cur st"
  "removes (snd (build e fl st)) = removes st"
  "printed (snd (build e fl st)) = printed st"
  by (simp_all add: build_def Let_def case_prod_beta)

lemma trace_sel [simp]:
  "snd (fst (trace e fl st)) = snd (fst (shell_Call e (trace_cmd e fl) (world st)))"
  "calls (snd (trace e fl st)) = calls st @ [EvCall (trace_cmd e fl)]"
  "res (snd (trace e fl st)) = res st"
  "cur (snd (trace e fl st)) = cur st"
  "removes (snd (trace e fl st)) = removes st"
  "printed (snd (trace e fl st)) = printed st"
  by (simp_all add: trace_def Let_def case_prod_beta split: option.splits)

lemma captureStats_sel [simp]:
  "world (snd (captureStats e fl file st)) = snd (shell_Call e (stats_cmd e fl file) (world st))"
  "calls (snd (captureStats e fl file st)) = calls st @ [EvCall (stats_cmd e fl file)]"
  "res (snd (captureStats e fl file st)) = res st"
  "cur (snd (captureStats e fl file st)) = cur st"
  "removes (snd (captureStats e fl file st)) = removes st"
  "printed (snd (captureStats e fl file st)) = printed st"
  by (simp_all add: captureStats_def Let_def case_prod_beta)

lemma captureStats_err: "snd (snd (snd (fst (captureStats e fl file st)))) = None"
  by (simp add: captureStats_def Let_def case_prod_beta)

lemma rebuild_sel [simp]:
  "fst (rebuild e fl st) = None"
  "world (snd (rebuild e fl st)) = snd (shell_Call e (build_cmd fl) (world st))"
  "calls (snd (rebuild e fl st)) = calls st @ [EvCall (build_cmd fl)]"
  "res (snd (rebuild e fl st)) = res st"
  "removes (snd (rebuild e fl st)) = removes st"
  "printed (snd (rebuild e fl st)) = printed st"
  "CaptureStats (cur (snd (rebuild e fl st))) = CaptureStats (cur st)"
  by (simp_all add: rebuild_def Let_def case_prod_beta split: option.splits)

lemma withTouchedGLES_rebuild_sel:
  "res (snd (withTouchedGLES e fl (rebuild e fl) st)) = res st"
  "removes (snd (withTouchedGLES e fl (rebuild e fl) st)) = removes st"
  "printed (snd (withTouchedGLES e fl (rebuild e fl) st)) = printed st"
  "CaptureStats (cur (snd (withTouchedGLES e fl (rebuild e fl) st))) = CaptureStats (cur st)"
  "checkouts (calls (snd (withTouchedGLES e fl (rebuild e fl) st))) = checkouts (calls st)"
  "branch_checkouts (calls (snd (withTouchedGLES e fl (rebuild e fl) st))) = branch_checkouts (calls st)"
  by (simp_all add: withTouchedGLES_def Let_def case_prod_beta split: sum.splits)

lemma gather_sizes_sel [simp]:
  "world (gather_sizes e fl st) = world st"
  "calls (gather_sizes e fl st) = calls st"
  "res (gather_sizes e fl st) = res st"
  "removes (gather_sizes e fl st) = removes st"
  "printed (gather_sizes e fl st) = printed st"
  "IncrementalBuildTime (cur (gather_sizes e fl st)) = IncrementalBuildTime (cur st)"
  "CaptureStats (cur (gather_sizes e fl st)) = CaptureStats (cur st)"
  by (simp_all add: gather_sizes_def)

subsection \<open>The stages of an iteration\<close>

lemma build_stage_sel [simp]:
  "res (snd (build_stage e fl cls i st)) = res st"
  "printed (snd (build_stage e fl cls i st)) = printed st"
  "IncrementalBuildTime (cur (snd (build_stage e fl cls i st))) = 0"
  "checkouts (calls (snd (build_stage e fl cls i st))) =
     checkouts (calls st) @ [SHA_hex (cls ! (length cls - 1 - i))]"
  "branch_checkouts (calls (snd (build_stage e fl cls i st))) = branch_checkouts (calls st)"
  by (simp_all add: build_stage_def Let_def case_prod_beta new_stats_def split: option.splits)

lemma build_stage_outcome:
  "fst (build_stage e fl cls i st) = Some out \<Longrightarrow> out = SkipBuild \<or> (\<exists>err. out = Fatal err)"
  by (auto simp: build_stage_def Let_def case_prod_beta split: option.splits)

lemma capture_stage_sel [simp]:
  "res (snd (capture_stage e fl st)) = res st"
  "printed (snd (capture_stage e fl st)) = printed st"
  "IncrementalBuildTime (cur (snd (capture_stage e fl st))) = IncrementalBuildTime (cur st)"
  "checkouts (calls (snd (capture_stage e fl st))) = checkouts (calls st)"
  "branch_checkouts (calls (snd (capture_stage e fl st))) = branch_checkouts (calls st)"
  by (simp_all add: capture_stage_def case_prod_beta captureStats_err split: option.splits)

lemma capture_stage_outcome:
  "fst (capture_stage e fl st) = Some out \<Longrightarrow> out = SkipTrace"
  by (auto simp: capture_stage_def case_prod_beta captureStats_err split: option.splits if_splits)

lemma incremental_stage_sel [simp]:
  "res (snd (incremental_stage e fl st)) = res st"
  "printed (snd (incremental_stage e fl st)) = printed st"
  "CaptureStats (cur (snd (incremental_stage e fl st))) = CaptureStats (cur st)"
  "checkouts (calls (snd (incremental_stage e fl st))) = checkouts (calls st)"
  "branch_checkouts (calls (snd (incremental_stage e fl st))) = branch_checkouts (calls st)"
  by (simp_all add: incremental_stage_def case_prod_beta withTouchedGLES_rebuild_sel
        split: option.splits)

lemma incremental_stage_outcome:
  "fst (incremental_stage e fl st) = Some out \<Longrightarrow> out = SkipTouch"
  by (auto simp: incremental_stage_def case_prod_beta split: option.splits if_splits)

lemma iteration_sel [simp]:
  "printed (snd (iteration e fl cls i st)) = printed st"
  "checkouts (calls (snd (iteration e fl cls i st))) =
     checkouts (calls st) @ [SHA_hex (cls ! (length cls - 1 - i))]"
  "branch_checkouts (calls (snd (iteration e fl cls i st))) = branch_checkouts (calls st)"
  by (simp_all add: iteration_def case_prod_beta split: option.splits)

lemma iteration_res:
  "res (snd (iteration e fl cls i st)) =
     (if fst (iteration e fl cls i st) = Recorded
      then res st @ [cur (snd (iteration e fl cls i st))] else res st)"
proof -
  have a: "\<And>out. fst (build_stage e fl cls i st) = Some out \<Longrightarrow> out \<noteq> Recorded"
    using build_stage_outcome by blast
  have b: "\<And>s out. fst (capture_stage e fl s) = Some out \<Longrightarrow> out \<noteq> Recorded"
    using capture_stage_outcome by blast
  have c: "\<And>s out. fst (incremental_stage e fl s) = Some out \<Longrightarrow> out \<noteq> Recorded"
    using incremental_stage_outcome by blast
  show ?thesis
    by (simp add: iteration_def case_prod_beta a b c split: option.splits)
qed

lemma iteration_not_SkipStats: "fst (iteration e fl cls i st) \<noteq> SkipStats"
proof -
  have a: "\<And>out. fst (build_stage e fl cls i st) = Some out \<Longrightarrow> out \<noteq> SkipStats"
    using build_stage_outcome by blast
  have b: "\<And>s out. fst (capture_stage e fl s) = Some out \<Longrightarrow> out \<noteq> SkipStats"
    using capture_stage_outcome by blast
  have c: "\<And>s out. fst (incremental_stage e fl s) = Some out \<Longrightarrow> out \<noteq> SkipStats"
    using incremental_stage_outcome by blast
  show ?thesis
    by (simp add: iteration_def case_prod_beta a b c split: option.splits)
qed

subsection \<open>The loop and the report\<close>

lemma rev_by_index: "map (\<lambda>i. xs ! (length xs - 1 - i)) [0..<length xs] = rev xs"
proof -
  have "map (\<lambda>i. xs ! (length xs - 1 - i)) [0..<length xs] = map (\<lambda>i. rev xs ! i) [0..<length xs]"
    by (rule map_cong) (simp_all add: rev_nth)
  also have "\<dots> = rev xs"
    using map_nth [of "rev xs"] by simp
  finally show ?thesis .
qed

lemma run_loop_frame [simp]:
  "branch_checkouts (calls (snd (run_loop e fl cls is st))) = branch_checkouts (calls st)"
  "printed (snd (run_loop e fl cls is st)) = printed st"
proof (induction "is" arbitrary: st)
  case Nil
  { case 1 show ?case by simp }
  { case 2 show ?case by simp }
next
  case (Cons i rest)
  { case 1
    show ?case
    proof (cases "iteration e fl cls i st")
      case (Pair out st1)
      have st1: "branch_checkouts (calls st1) = branch_checkouts (calls st)"
        using iteration_sel(3) [of e fl cls i st] Pair by simp
      show ?thesis using Pair st1 Cons.IH(1) [of st1] by (cases out) simp_all
    qed }
  { case 2
    show ?case
    proof (cases "iteration e fl cls i st")
      case (Pair out st1)
      have st1: "printed st1 = printed st"
        using iteration_sel(1) [of e fl cls i st] Pair by simp
      show ?thesis using Pair st1 Cons.IH(2) [of st1] by (cases out) simp_all
    qed }
qed

lemma run_loop_checkouts:
  "run_loop e fl cls is st = (None, st') \<Longrightarrow>
   checkouts (calls st') =
     checkouts (calls st) @ map (\<lambda>i. SHA_hex (cls ! (length cls - 1 - i))) is"
proof (induction "is" arbitrary: st)
  case Nil
  then show ?case by simp
next
  case (Cons i rest)
  show ?case
  proof (cases "iteration e fl cls i st")
    case (Pair out st1)
    have st1: "checkouts (calls st1) = checkouts (calls st) @ [SHA_hex (cls ! (length cls - 1 - i))]"
      using iteration_sel(2) [of e fl cls i st] Pair by simp
    have "run_loop e fl cls rest st1 = (None, st')"
      using Cons.prems Pair by (cases out) simp_all
    from Cons.IH [OF this] st1 show ?thesis by simp
  qed
qed

lemma run_loop_res_length:
  "length (res (snd (run_loop e fl cls is st))) \<le> length (res st) + length is"
proof (induction "is" arbitrary: st)
  case Nil
  show ?case by simp
next
  case (Cons i rest)
  show ?case
  proof (cases "iteration e fl cls i st")
    case (Pair out st1)
    have st1: "length (res st1) \<le> length (res st) + 1"
      using iteration_res [of e fl cls i st] Pair by (simp split: if_splits)
    show ?thesis using Pair st1 Cons.IH [of st1] by (cases out) simp_all
  qed
qed

lemma print_rows_eq: "print_rows fl rs w = w @ concat (map (print_row fl) rs)"
  by (induction rs arbitrary: w) simp_all

lemma print_report_sel [simp]:
  "res (print_report fl st) = res st"
  "calls (print_report fl st) = calls st"
  "world (print_report fl st) = world st"
  "removes (print_report fl st) = removes st"
  "printed (print_report fl st) =
     printed st @ [(''-----------------------'' @ [CHR 0x0A], [])] @ print_header fl
       @ concat (map (print_row fl) (res st))"
  by (simp_all add: print_report_def Let_def print_rows_eq)

lemma run_deferred_sel [simp]:
  "res (run_deferred e fl b st) = res st"
  "printed (run_deferred e fl b st) = printed st"
  "calls (run_deferred e fl b st) = calls st @ [EvCheckoutBranch b]"
  "world (run_deferred e fl b st) =
     snd (git_CheckoutBranch e (root_dir fl) b
            (fold (\<lambda>file w. snd (os_Remove file w)) (removes st) (world st)))"
  by (simp_all add: run_deferred_def)

subsection \<open>The watched file and the trace file\<close>

lemma WriteFile_at:
  "fs (snd (WriteFile e p d perm w)) p =
     (case fs w p of
        None \<Rightarrow> Some \<lparr>bytes = d, fmode = and perm (not (umask e))\<rparr>
      | Some f \<Rightarrow> if may_write e (fmode f) then Some (f\<lparr>bytes := d\<rparr>) else Some f)"
  by (simp add: WriteFile_def split: option.splits)

lemma withTouchedGLES_restores:
  assumes frame: "\<forall>s. fs (world (snd (f s))) (glesAPIPath e fl) = fs (world s) (glesAPIPath e fl)"
  shows "fs (world (snd (withTouchedGLES e fl f st))) (glesAPIPath e fl) =
           fs (world st) (glesAPIPath e fl)"
proof (cases "os_Stat (world st) (glesAPIPath e fl)")
  case (Inl err)
  then show ?thesis by (simp add: withTouchedGLES_def)
next
  case (Inr fi)
  then obtain f0 where f0: "fs (world st) (glesAPIPath e fl) = Some f0"
    by (auto simp: os_Stat_def split: option.splits)
  show ?thesis
  proof (cases "ReadFile e (world st) (glesAPIPath e fl)")
    case (Inl err)
    with Inr show ?thesis by (simp add: withTouchedGLES_def)
  next
    case (Inr glesAPI)
    with f0 have content: "bytes f0 = glesAPI"
      by (auto simp: ReadFile_def split: if_splits)
    show ?thesis
    proof (cases "may_write e (fmode f0)")
      case True
      with \<open>os_Stat (world st) (glesAPIPath e fl) = Inr fi\<close> Inr f0 content frame show ?thesis
        by (simp add: withTouchedGLES_def Let_def case_prod_beta WriteFile_at)
    next
      case False
      with \<open>os_Stat (world st) (glesAPIPath e fl) = Inr fi\<close> Inr f0 content frame show ?thesis
        by (simp add: withTouchedGLES_def Let_def case_prod_beta WriteFile_at)
    qed
  qed
qed

lemma trace_failure_removes:
  "snd (fst (shell_Call e (trace_cmd e fl) (world st))) = Some err \<Longrightarrow>
   fs (world (snd (trace e fl st))) (trace_file e) = None"
  by (simp add: trace_def Let_def case_prod_beta os_Remove_def split: option.splits)

lemma withTouchedGLES_fails:
  "(\<exists>err. os_Stat (world st) (glesAPIPath e fl) = Inl err)
     \<or> (\<exists>err. ReadFile e (world st) (glesAPIPath e fl) = Inl err) \<Longrightarrow>
   \<exists>err. withTouchedGLES e fl f st = (Some err, st)"
  by (auto simp: withTouchedGLES_def split: sum.splits)

lemma withTouchedGLES_rebuild_ok:
  "os_Stat (world st) (glesAPIPath e fl) = Inr fi \<Longrightarrow>
   ReadFile e (world st) (glesAPIPath e fl) = Inr d \<Longrightarrow>
   fst (withTouchedGLES e fl (rebuild e fl) st) = None"
  by (simp add: withTouchedGLES_def Let_def case_prod_beta)

subsection \<open>The whole run\<close>

lemma run_main_frame [simp]:
  "branch_checkouts (calls (snd (run_main e fl st))) = branch_checkouts (calls st)"
proof (cases "git_LogFrom e (root_dir fl) (atSHA fl) (count fl) (world st)")
  case (Inl err)
  then show ?thesis by (simp add: run_main_def)
next
  case (Inr cls)
  let ?r = "run_loop e fl cls [0..<length cls] (st\<lparr>rnd := now (world st) div 1000000000, res := []\<rparr>)"
  have "branch_checkouts (calls (snd ?r)) = branch_checkouts (calls st)"
    by simp
  then show ?thesis
    using Inr by (cases ?r) (auto simp: run_main_def split: option.splits)
qed

lemma run_after_prechecks:
  "prechecks e fl (world st) = Inr (fl1, b) \<Longrightarrow>
   run e fl st =
     (fst (run_main e fl1 (st\<lparr>removes := []\<rparr>)),
      run_deferred e fl1 b (snd (run_main e fl1 (st\<lparr>removes := []\<rparr>))))"
  by (simp add: run_def case_prod_beta)

lemma run_main_ok:
  assumes listed: "git_LogFrom e (root_dir fl) (atSHA fl) (count fl) (world st) = Inr cls"
      and ok: "fst (run_main e fl st) = None"
  shows "\<exists>st1. run_loop e fl cls [0..<length cls]
                 (st\<lparr>rnd := now (world st) div 1000000000, res := []\<rparr>) = (None, st1)
              \<and> snd (run_main e fl st) = print_report fl st1"
proof -
  let ?r = "run_loop e fl cls [0..<length cls] (st\<lparr>rnd := now (world st) div 1000000000, res := []\<rparr>)"
  show ?thesis
    using listed ok by (cases ?r) (auto simp: run_main_def split: option.splits)
qed

lemma row_ends: "length (filter (\<lambda>f. f = ([CHR 0x0A], [])) (print_row fl r)) = 1"
  by (simp add: print_row_def tab_def)

lemma rows_ends:
  "length (filter (\<lambda>f. f = ([CHR 0x0A], [])) (concat (map (print_row fl) rs))) = length rs"
  by (induction rs) (simp_all add: row_ends)

section \<open>The claims\<close>

subsection \<open>The parser of the stats output\<close>

text \<open>
  C2. When the stats executable succeeds and prints \<open>out\<close>, \<open>captureStats\<close> returns the
  counters that the scan of \<open>out\<close> gives, with no error. The scan of
  \<open>Frames: 12 Draws: 5 Commands: 40\<close> gives frames 12, draws 5 and commands 40; the scan
  of \<open>Foo: 9\<close> leaves the three counters at zero, and in any position of the output a match
  whose word is none of the three names leaves the three counters as they were; the scan of
  \<open>Frames: abc\<close>, where the value is not a number, leaves frames at its default 0.
\<close>

theorem C2_stats_parser:
  "(fst (shell_Call e (stats_cmd e fl file) (world st)) = (out, None) \<longrightarrow>
      fst (captureStats e fl file st) =
        (fst (captureStats_scan out), fst (snd (captureStats_scan out)),
         snd (snd (captureStats_scan out)), None))
   \<and> captureStats_scan ''Frames: 12 Draws: 5 Commands: 40'' = (12, 5, 40)
   \<and> captureStats_scan ''Foo: 9'' = (0, 0, 0)
   \<and> (word \<noteq> ''Frames'' \<and> word \<noteq> ''Draws'' \<and> word \<noteq> ''Commands'' \<longrightarrow>
        captureStats_loop ([whole, word, digits] # rest) c = captureStats_loop rest c)
   \<and> captureStats_scan ''Frames: abc'' = (0, 0, 0)"
proof -
  have call: "fst (shell_Call e (stats_cmd e fl file) (world st)) = (out, None) \<longrightarrow>
      fst (captureStats e fl file st) =
        (fst (captureStats_scan out), fst (snd (captureStats_scan out)),
         snd (snd (captureStats_scan out)), None)"
    by (simp add: captureStats_def Let_def case_prod_beta)
  have full: "captureStats_scan ''Frames: 12 Draws: 5 Commands: 40'' = (12, 5, 40)"
    by code_simp
  have foo: "captureStats_scan ''Foo: 9'' = (0, 0, 0)"
    by code_simp
  have other: "word \<noteq> ''Frames'' \<and> word \<noteq> ''Draws'' \<and> word \<noteq> ''Commands'' \<longrightarrow>
        captureStats_loop ([whole, word, digits] # rest) c = captureStats_loop rest c"
    by (cases c) (simp split: option.splits)
  have abc: "captureStats_scan ''Frames: abc'' = (0, 0, 0)"
    by code_simp
  from call full foo other abc show ?thesis by blast
qed

theorem C2_stats_parser_witness:
  "fst (captureStats (test_env never) (test_flags True ''game'') ''t.gfxtrace'' (test_state test_world))
     = (12, 5, 40, None)
   \<and> captureStats_loop [[''Foo: 9'', ''Foo'', ''9''], [''Draws: 5'', ''Draws'', ''5'']] (1, 2, 3) = (1, 5, 3)"
proof -
  have call: "fst (shell_Call (test_env never)
                (stats_cmd (test_env never) (test_flags True ''game'') ''t.gfxtrace'')
                (world (test_state test_world))) = (''Frames: 12 Draws: 5 Commands: 40'', None)"
    by code_simp
  have names: "''Foo'' \<noteq> ''Frames'' \<and> ''Foo'' \<noteq> ''Draws'' \<and> ''Foo'' \<noteq> ''Commands''"
    by simp
  have rest: "captureStats_loop [[''Draws: 5'', ''Draws'', ''5'']] (1, 2, 3) = (1, 5, 3)"
    by code_simp
  show ?thesis
    using C2_stats_parser [of "test_env never" "test_flags True ''game''" "''t.gfxtrace''"
        "test_state test_world" "''Frames: 12 Draws: 5 Commands: 40''" "''Foo''" "''Foo: 9''" "''9''"
        "[[''Draws: 5'', ''Draws'', ''5'']]" "(1, 2, 3)"]
      call names rest
    by simp
qed

text \<open>
  C9. \<open>captureStats\<close> returns no error, whatever the call of the stats executable does
  and prints; so no iteration ends at the \<open>continue\<close> that follows
  \<open>captureStats\<close> in \<open>run\<close>.
\<close>

theorem C9_captureStats_no_error:
  "snd (snd (snd (fst (captureStats e fl file st)))) = None
   \<and> fst (capture_stage e fl st) \<noteq> Some SkipStats
   \<and> fst (iteration e fl cls i st) \<noteq> SkipStats"
proof -
  have "fst (capture_stage e fl st) \<noteq> Some SkipStats"
    using capture_stage_outcome [of e fl st SkipStats] by auto
  then show ?thesis
    using captureStats_err [of e fl "file" st] iteration_not_SkipStats [of e fl cls i st] by simp
qed

theorem C9_captureStats_no_error_witness:
  "snd (snd (snd (fst (captureStats (test_env bad_stats) (test_flags True ''game'') ''t.gfxtrace''
      (test_state test_world))))) = None
   \<and> fst (iteration (test_env bad_stats) (test_flags True ''game'') test_history 0
        (test_state test_world)) \<noteq> SkipStats"
  using C9_captureStats_no_error [of "test_env bad_stats" "test_flags True ''game''" "''t.gfxtrace''"
      "test_state test_world" test_history 0]
  by simp

text \<open>
  C10, as the code has it. After the loop over the matches each counter holds the value of
  the last match of its name whose digits \<open>Atoi\<close> converts, and its starting value when
  there is none: a later match of the name overwrites an earlier one, but a match whose
  number does not fit \<open>int\<close> is passed over and leaves the earlier value.
\<close>

theorem C10_last_converted_match:
  "captureStats_loop ms (f, d, c) =
     (last (f # assigned ''Frames'' ms), last (d # assigned ''Draws'' ms),
      last (c # assigned ''Commands'' ms))
   \<and> (length m = 3 \<and> m ! 1 = ''Frames'' \<and> Atoi (m ! 2) = Some n \<longrightarrow>
        fst (captureStats_loop (ms @ [m]) (f, d, c)) = n)
   \<and> (length m = 3 \<and> Atoi (m ! 2) = None \<longrightarrow>
        captureStats_loop (ms @ [m]) (f, d, c) = captureStats_loop ms (f, d, c))"
proof -
  have a: "assigned ''Frames'' (ms @ [m]) = assigned ''Frames'' ms @ [n]"
    if "length m = 3 \<and> m ! 1 = ''Frames'' \<and> Atoi (m ! 2) = Some n"
    using that by (simp add: assigned_def)
  have b: "assigned name (ms @ [m]) = assigned name ms" if "Atoi (m ! 2) = None" for name
    using that by (simp add: assigned_def)
  show ?thesis
    using a b by (simp add: captureStats_loop_last)
qed

theorem C10_last_converted_match_witness:
  "captureStats_scan ''Frames: 5 Draws: 1 Frames: 7'' = (7, 1, 0)
   \<and> fst (captureStats_loop ([] @ [[''Frames: 7'', ''Frames'', ''7'']]) (5, 1, 0)) = 7"
proof -
  have ms: "FindAllStringSubmatch stats_re ''Frames: 5 Draws: 1 Frames: 7'' =
      [[''Frames: 5'', ''Frames'', ''5''], [''Draws: 1'', ''Draws'', ''1''],
       [''Frames: 7'', ''Frames'', ''7'']]"
    by code_simp
  have v: "assigned ''Frames'' [[''Frames: 5'', ''Frames'', ''5''], [''Draws: 1'', ''Draws'', ''1''],
       [''Frames: 7'', ''Frames'', ''7'']] = [5, 7]"
    "assigned ''Draws'' [[''Frames: 5'', ''Frames'', ''5''], [''Draws: 1'', ''Draws'', ''1''],
       [''Frames: 7'', ''Frames'', ''7'']] = [1]"
    "assigned ''Commands'' [[''Frames: 5'', ''Frames'', ''5''], [''Draws: 1'', ''Draws'', ''1''],
       [''Frames: 7'', ''Frames'', ''7'']] = []"
    by code_simp+
  have h: "length [''Frames: 7'', ''Frames'', ''7''] = 3
      \<and> [''Frames: 7'', ''Frames'', ''7''] ! 1 = ''Frames''
      \<and> Atoi ([''Frames: 7'', ''Frames'', ''7''] ! 2) = Some 7"
    by code_simp
  have one: "captureStats_scan ''Frames: 5 Draws: 1 Frames: 7'' = (7, 1, 0)"
    using C10_last_converted_match [of
        "[[''Frames: 5'', ''Frames'', ''5''], [''Draws: 1'', ''Draws'', ''1''],
          [''Frames: 7'', ''Frames'', ''7'']]" 0 0 0 "[]" 0] ms v
    by (simp add: captureStats_scan_def)
  have two: "fst (captureStats_loop ([] @ [[''Frames: 7'', ''Frames'', ''7'']]) (5, 1, 0)) = 7"
    using C10_last_converted_match [of "[]" 5 1 0 "[''Frames: 7'', ''Frames'', ''7'']" 7] h
    by blast
  from one two show ?thesis by blast
qed

text \<open>
  The claim as the specification words it fails: in the output
  \<open>Frames: 5 Frames: 99999999999999999999\<close> the name occurs twice, the pattern matches
  both times, and the counter keeps the value 5 of the first match.
\<close>

theorem C10_counterexample:
  "FindAllStringSubmatch stats_re ''Frames: 5 Frames: 99999999999999999999'' =
     [[''Frames: 5'', ''Frames'', ''5''],
      [''Frames: 99999999999999999999'', ''Frames'', ''99999999999999999999'']]
   \<and> captureStats_scan ''Frames: 5 Frames: 99999999999999999999'' = (5, 0, 0)"
  by code_simp

subsection \<open>The perturbation cycle\<close>

text \<open>
  C5. \<open>withTouchedGLES\<close> leaves the watched file as it found it, content and mode, for
  every content and mode of the file (also a file that is missing, unreadable or
  read-only) and every callback, failing or not, that does not itself alter that file;
  so it does with the callback that \<open>run\<close> passes, when the build leaves the watched
  file alone.
\<close>

theorem C5_perturbation_round_trip:
  "((\<forall>s. fs (world (snd (f s))) (glesAPIPath e fl) = fs (world s) (glesAPIPath e fl)) \<longrightarrow>
      fs (world (snd (withTouchedGLES e fl f st))) (glesAPIPath e fl) =
        fs (world st) (glesAPIPath e fl))
   \<and> ((\<forall>w. fs (snd (shell_Call e (build_cmd fl) w)) (glesAPIPath e fl) = fs w (glesAPIPath e fl)) \<longrightarrow>
      fs (world (snd (withTouchedGLES e fl (rebuild e fl) st))) (glesAPIPath e fl) =
        fs (world st) (glesAPIPath e fl))"
proof -
  have general: "fs (world (snd (withTouchedGLES e fl f st))) (glesAPIPath e fl) =
        fs (world st) (glesAPIPath e fl)"
    if "\<forall>s. fs (world (snd (f s))) (glesAPIPath e fl) = fs (world s) (glesAPIPath e fl)"
    using that by (rule withTouchedGLES_restores)
  have used: "fs (world (snd (withTouchedGLES e fl (rebuild e fl) st))) (glesAPIPath e fl) =
        fs (world st) (glesAPIPath e fl)"
    if "\<forall>w. fs (snd (shell_Call e (build_cmd fl) w)) (glesAPIPath e fl) = fs w (glesAPIPath e fl)"
  proof (rule withTouchedGLES_restores)
    show "\<forall>s. fs (world (snd (rebuild e fl s))) (glesAPIPath e fl) = fs (world s) (glesAPIPath e fl)"
      using that by simp
  qed
  from general used show ?thesis by blast
qed

theorem C5_perturbation_round_trip_witness:
  "fst (withTouchedGLES (test_env never) (test_flags True [])
          (\<lambda>s. (Some (Error ''rebuild failed''), s)) (test_state test_world))
     = Some (Error ''rebuild failed'')
   \<and> fs (world (snd (withTouchedGLES (test_env never) (test_flags True [])
          (\<lambda>s. (Some (Error ''rebuild failed''), s)) (test_state test_world))))
        ''/r/gapis/api/gles/gles.api''
     = Some \<lparr>bytes = ''api'', fmode = 420\<rparr>
   \<and> fs (world (snd (withTouchedGLES (test_env never) (test_flags True [])
          (rebuild (test_env never) (test_flags True [])) (test_state test_world))))
        ''/r/gapis/api/gles/gles.api''
     = Some \<lparr>bytes = ''api'', fmode = 420\<rparr>"
proof -
  have path: "glesAPIPath (test_env never) (test_flags True []) = ''/r/gapis/api/gles/gles.api''"
    by code_simp
  have before: "fs (world (test_state test_world)) ''/r/gapis/api/gles/gles.api''
      = Some \<lparr>bytes = ''api'', fmode = 420\<rparr>"
    by (simp add: test_state_def test_world_def)
  have err: "fst (withTouchedGLES (test_env never) (test_flags True [])
          (\<lambda>s. (Some (Error ''rebuild failed''), s)) (test_state test_world))
     = Some (Error ''rebuild failed'')"
    by code_simp
  have frame: "\<forall>s. fs (world (snd ((\<lambda>s. (Some (Error ''rebuild failed''), s)) s)))
        (glesAPIPath (test_env never) (test_flags True []))
      = fs (world s) (glesAPIPath (test_env never) (test_flags True []))"
    by simp
  have build_frame: "\<forall>w. fs (snd (shell_Call (test_env never) (build_cmd (test_flags True [])) w))
        (glesAPIPath (test_env never) (test_flags True []))
      = fs w (glesAPIPath (test_env never) (test_flags True []))"
    by (simp add: test_env_def test_shell_def never_def build_cmd_def test_flags_def)
  show ?thesis
    using C5_perturbation_round_trip [of "\<lambda>s. (Some (Error ''rebuild failed''), s)"
        "test_env never" "test_flags True []" "test_state test_world"]
      frame build_frame err
    unfolding path before by blast
qed

subsection \<open>The failures inside an iteration\<close>

text \<open>
  C1, as the code has it. With incremental timing enabled, take a revision that reaches
  the perturbation step. When the step fails to stat or to read the watched file, the
  iteration ends at the \<open>continue\<close> after \<open>withTouchedGLES\<close>: the incremental-build-time
  field is still at its zero default, and the revision is skipped, no record being
  appended. When the file is stat'ed and read, the revision is recorded; the failure that
  is swallowed is that of the perturbed rebuild, after which the callback reports no error
  and leaves the record as it was.
\<close>

theorem C1_perturbation_failure_skips:
  assumes inc: "incBuild fl"
      and built: "build_stage e fl cls i st = (None, st1)"
      and captured: "capture_stage e fl st1 = (None, st2)"
  shows "((\<exists>err. os_Stat (world st2) (glesAPIPath e fl) = Inl err)
            \<or> (\<exists>err. ReadFile e (world st2) (glesAPIPath e fl) = Inl err) \<longrightarrow>
          iteration e fl cls i st = (SkipTouch, st2) \<and> res st2 = res st
            \<and> IncrementalBuildTime (cur st2) = 0)
       \<and> ((\<exists>fi. os_Stat (world st2) (glesAPIPath e fl) = Inr fi)
            \<and> (\<exists>d. ReadFile e (world st2) (glesAPIPath e fl) = Inr d) \<longrightarrow>
          fst (iteration e fl cls i st) = Recorded)
       \<and> (\<forall>s. fst (rebuild e fl s) = None
            \<and> ((\<exists>err. snd (fst (build e fl s)) = Some err) \<longrightarrow> cur (snd (rebuild e fl s)) = cur s))"
proof -
  have res2: "res st2 = res st"
    using build_stage_sel(1) [of e fl cls i st] capture_stage_sel(1) [of e fl st1] built captured
    by simp
  have time2: "IncrementalBuildTime (cur st2) = 0"
    using build_stage_sel(3) [of e fl cls i st] capture_stage_sel(3) [of e fl st1] built captured
    by simp
  have skip: "iteration e fl cls i st = (SkipTouch, st2)"
    if unread: "(\<exists>err. os_Stat (world st2) (glesAPIPath e fl) = Inl err)
          \<or> (\<exists>err. ReadFile e (world st2) (glesAPIPath e fl) = Inl err)"
  proof -
    obtain err where "withTouchedGLES e fl (rebuild e fl) st2 = (Some err, st2)"
      using withTouchedGLES_fails [OF unread] by blast
    then show ?thesis
      using inc built captured by (simp add: iteration_def incremental_stage_def)
  qed
  have rec: "fst (iteration e fl cls i st) = Recorded"
    if "(\<exists>fi. os_Stat (world st2) (glesAPIPath e fl) = Inr fi)
          \<and> (\<exists>d. ReadFile e (world st2) (glesAPIPath e fl) = Inr d)"
  proof -
    have "fst (withTouchedGLES e fl (rebuild e fl) st2) = None"
      using that withTouchedGLES_rebuild_ok by blast
    then show ?thesis
      using inc built captured
      by (simp add: iteration_def incremental_stage_def case_prod_beta)
  qed
  have swallowed: "fst (rebuild e fl s) = None
      \<and> ((\<exists>err. snd (fst (build e fl s)) = Some err) \<longrightarrow> cur (snd (rebuild e fl s)) = cur s)" for s
    by (auto simp: rebuild_def case_prod_beta split: option.splits)
  from res2 time2 skip rec swallowed show ?thesis by blast
qed

theorem C1_perturbation_failure_skips_witness:
  "iteration (test_env never) (test_flags True []) test_history 0 (test_state bare_world) =
     (SkipTouch,
      snd (capture_stage (test_env never) (test_flags True [])
             (snd (build_stage (test_env never) (test_flags True []) test_history 0
                     (test_state bare_world)))))
   \<and> fst (iteration (test_env never) (test_flags True []) test_history 0 (test_state test_world))
       = Recorded"
proof -
  have inc: "incBuild (test_flags True [])"
    by (simp add: test_flags_def)
  have b1: "fst (build_stage (test_env never) (test_flags True []) test_history 0
                  (test_state bare_world)) = None"
    by code_simp
  have c1: "fst (capture_stage (test_env never) (test_flags True [])
                  (snd (build_stage (test_env never) (test_flags True []) test_history 0
                          (test_state bare_world)))) = None"
    by (simp add: capture_stage_def test_flags_def)
  have missing: "os_Stat (world (snd (capture_stage (test_env never) (test_flags True [])
                  (snd (build_stage (test_env never) (test_flags True []) test_history 0
                          (test_state bare_world))))))
                  (glesAPIPath (test_env never) (test_flags True []))
                = Inl (Error ''no such file or directory'')"
    by code_simp
  have b2: "fst (build_stage (test_env never) (test_flags True []) test_history 0
                  (test_state test_world)) = None"
    by code_simp
  have c2: "fst (capture_stage (test_env never) (test_flags True [])
                  (snd (build_stage (test_env never) (test_flags True []) test_history 0
                          (test_state test_world)))) = None"
    by (simp add: capture_stage_def test_flags_def)
  have present: "os_Stat (world (snd (capture_stage (test_env never) (test_flags True [])
                  (snd (build_stage (test_env never) (test_flags True []) test_history 0
                          (test_state test_world))))))
                  (glesAPIPath (test_env never) (test_flags True []))
                = Inr \<lparr>Size = 3, Mode = 420\<rparr>"
       "ReadFile (test_env never) (world (snd (capture_stage (test_env never) (test_flags True [])
                  (snd (build_stage (test_env never) (test_flags True []) test_history 0
                          (test_state test_world))))))
                  (glesAPIPath (test_env never) (test_flags True []))
                = Inr ''api''"
    by code_simp+
  have one: "iteration (test_env never) (test_flags True []) test_history 0 (test_state bare_world) =
     (SkipTouch,
      snd (capture_stage (test_env never) (test_flags True [])
             (snd (build_stage (test_env never) (test_flags True []) test_history 0
                     (test_state bare_world)))))"
    using C1_perturbation_failure_skips [OF inc prod_eqI prod_eqI,
        of "test_env never" test_history 0 "test_state bare_world"
           "snd (build_stage (test_env never) (test_flags True []) test_history 0
                  (test_state bare_world))"
           "snd (capture_stage (test_env never) (test_flags True [])
                  (snd (build_stage (test_env never) (test_flags True []) test_history 0
                          (test_state bare_world))))"]
      b1 c1 missing
    by simp
  have two: "fst (iteration (test_env never) (test_flags True []) test_history 0
                    (test_state test_world)) = Recorded"
    using C1_perturbation_failure_skips [OF inc prod_eqI prod_eqI,
        of "test_env never" test_history 0 "test_state test_world"
           "snd (build_stage (test_env never) (test_flags True []) test_history 0
                  (test_state test_world))"
           "snd (capture_stage (test_env never) (test_flags True [])
                  (snd (build_stage (test_env never) (test_flags True []) test_history 0
                          (test_state test_world))))"]
      b2 c2 present
    by simp
  from one two show ?thesis by blast
qed

text \<open>
  The claim as the specification words it fails: in a tree without the watched file,
  with incremental timing enabled, the three revisions are checked out and built, and the
  run records none of them; its table has a header and no row.
\<close>

theorem C1_counterexample:
  "incBuild (test_flags True [])
   \<and> fs bare_world (glesAPIPath (test_env never) (test_flags True [])) = None
   \<and> fst (iteration (test_env never) (test_flags True []) test_history 0 (test_state bare_world))
       = SkipTouch
   \<and> res (snd (iteration (test_env never) (test_flags True []) test_history 0
                  (test_state bare_world))) = []
   \<and> fst (run (test_env never) (test_flags True []) (test_state bare_world)) = None
   \<and> checkouts (calls (snd (run (test_env never) (test_flags True []) (test_state bare_world))))
       = [''aaaaaaaaaaaaaaaaaaaaaaaaaaaaaaaaaaaaaaaa'', ''bbbbbbbbbbbbbbbbbbbbbbbbbbbbbbbbbbbbbbbb'',
          ''cccccccccccccccccccccccccccccccccccccccc'']
   \<and> res (snd (run (test_env never) (test_flags True []) (test_state bare_world))) = []"
  by code_simp


text \<open>
  C3. With a workload filter set, take a revision that was checked out and built. When
  the trace capture fails, the iteration ends at the \<open>continue\<close> after \<open>trace\<close>: nothing is
  appended to the results, whatever sizes were gathered, and no file is left at the path
  of the trace output.
\<close>

theorem C3_trace_failure_skips:
  assumes filter: "pkg fl \<noteq> []"
      and built: "build_stage e fl cls i st = (None, st1)"
      and failed: "snd (fst (trace e fl st1)) = Some err"
  shows "fst (iteration e fl cls i st) = SkipTrace
       \<and> res (snd (iteration e fl cls i st)) = res st
       \<and> fs (world (snd (iteration e fl cls i st))) (trace_file e) = None"
proof -
  have stage: "capture_stage e fl st1 = (Some SkipTrace, snd (trace e fl st1))"
    using filter failed by (simp add: capture_stage_def case_prod_beta)
  have it: "iteration e fl cls i st = (SkipTrace, snd (trace e fl st1))"
    using built stage by (simp add: iteration_def)
  have "res (snd (trace e fl st1)) = res st"
    using build_stage_sel(1) [of e fl cls i st] built by simp
  moreover have "fs (world (snd (trace e fl st1))) (trace_file e) = None"
    using failed by (simp add: trace_failure_removes)
  ultimately show ?thesis using it by simp
qed

theorem C3_trace_failure_skips_witness:
  "fst (iteration (test_env bad_trace) (test_flags True ''game'') test_history 0
          (test_state test_world)) = SkipTrace
   \<and> res (snd (iteration (test_env bad_trace) (test_flags True ''game'') test_history 0
          (test_state test_world))) = []
   \<and> fs (world (snd (iteration (test_env bad_trace) (test_flags True ''game'') test_history 0
          (test_state test_world)))) ''/tmp/gapid-regres.gfxtrace'' = None"
proof -
  have filter: "pkg (test_flags True ''game'') \<noteq> []"
    by (simp add: test_flags_def)
  have b: "fst (build_stage (test_env bad_trace) (test_flags True ''game'') test_history 0
                 (test_state test_world)) = None"
    by code_simp
  have failed: "snd (fst (trace (test_env bad_trace) (test_flags True ''game'')
                  (snd (build_stage (test_env bad_trace) (test_flags True ''game'') test_history 0
                          (test_state test_world))))) = Some (Error ''exit status 1'')"
    by code_simp
  have path: "trace_file (test_env bad_trace) = ''/tmp/gapid-regres.gfxtrace''"
    by code_simp
  have start: "res (test_state test_world) = []"
    by (simp add: test_state_def)
  show ?thesis
    using C3_trace_failure_skips [OF filter prod_eqI failed,
        of test_history 0 "test_state test_world"] b
    unfolding path start by simp
qed


text \<open>
  C8, as the code has it. When the call of the stats executable fails, \<open>captureStats\<close>
  returns zero frames, draws and commands and no error, and the iteration does not end
  there: it goes on to the incremental stage with the three counters at zero. The
  revision is then recorded, with those zero counters, when incremental timing is off or
  the watched file is stat'ed and read. With incremental timing on and the watched file
  failing to stat or to read, the iteration ends at the \<open>continue\<close> after
  \<open>withTouchedGLES\<close> and the revision is not recorded. (A failed trace capture ends the
  iteration with no record, whatever would follow.)
\<close>

theorem C8_stats_failure_zero_counts:
  assumes filter: "pkg fl \<noteq> []"
      and built: "build_stage e fl cls i st = (None, st1)"
      and traced: "trace e fl st1 = ((tf, None), st2)"
      and failed: "snd (fst (shell_Call e (stats_cmd e fl tf) (world st2))) = Some err"
  shows "fst (captureStats e fl tf (st2\<lparr>removes := tf # removes st2\<rparr>)) = (0, 0, 0, None)
       \<and> fst (capture_stage e fl st1) = None
       \<and> CaptureStats (cur (snd (capture_stage e fl st1))) = \<lparr>Frames = 0, DrawCalls = 0, Commands = 0\<rparr>
       \<and> (\<not> incBuild fl
            \<or> ((\<exists>fi. os_Stat (world (snd (capture_stage e fl st1))) (glesAPIPath e fl) = Inr fi)
               \<and> (\<exists>d. ReadFile e (world (snd (capture_stage e fl st1))) (glesAPIPath e fl) = Inr d)) \<longrightarrow>
            fst (iteration e fl cls i st) = Recorded
            \<and> (\<exists>r. res (snd (iteration e fl cls i st)) = res st @ [r]
                 \<and> CaptureStats r = \<lparr>Frames = 0, DrawCalls = 0, Commands = 0\<rparr>))
       \<and> (incBuild fl
            \<and> ((\<exists>err. os_Stat (world (snd (capture_stage e fl st1))) (glesAPIPath e fl) = Inl err)
               \<or> (\<exists>err. ReadFile e (world (snd (capture_stage e fl st1))) (glesAPIPath e fl) = Inl err)) \<longrightarrow>
            fst (iteration e fl cls i st) = SkipTouch
            \<and> res (snd (iteration e fl cls i st)) = res st)"
proof -
  let ?st3 = "snd (capture_stage e fl st1)"
  have zero: "fst (captureStats e fl tf (st2\<lparr>removes := tf # removes st2\<rparr>)) = (0, 0, 0, None)"
    using failed by (simp add: captureStats_def Let_def case_prod_beta)
  have stage: "fst (capture_stage e fl st1) = None"
    "CaptureStats (cur ?st3) = \<lparr>Frames = 0, DrawCalls = 0, Commands = 0\<rparr>"
    using filter traced zero by (simp_all add: capture_stage_def case_prod_beta)
  have res3: "res ?st3 = res st"
    using build_stage_sel(1) [of e fl cls i st] built by simp
  have rec: "fst (iteration e fl cls i st) = Recorded
      \<and> (\<exists>r. res (snd (iteration e fl cls i st)) = res st @ [r]
            \<and> CaptureStats r = \<lparr>Frames = 0, DrawCalls = 0, Commands = 0\<rparr>)"
    if next_ok: "fst (incremental_stage e fl ?st3) = None"
  proof -
    have it: "iteration e fl cls i st =
        (Recorded, (snd (incremental_stage e fl ?st3))
           \<lparr>res := res (snd (incremental_stage e fl ?st3))
              @ [cur (snd (incremental_stage e fl ?st3))]\<rparr>)"
      using built stage(1) next_ok by (simp add: iteration_def case_prod_beta)
    have r0: "res (snd (incremental_stage e fl ?st3)) = res st"
      using res3 by simp
    have c0: "CaptureStats (cur (snd (incremental_stage e fl ?st3)))
        = \<lparr>Frames = 0, DrawCalls = 0, Commands = 0\<rparr>"
      using stage(2) by simp
    show ?thesis using it r0 c0 by simp
  qed
  have off: "fst (incremental_stage e fl ?st3) = None" if "\<not> incBuild fl"
    using that by (simp add: incremental_stage_def)
  have readable: "fst (incremental_stage e fl ?st3) = None"
    if present: "(\<exists>fi. os_Stat (world ?st3) (glesAPIPath e fl) = Inr fi)
       \<and> (\<exists>d. ReadFile e (world ?st3) (glesAPIPath e fl) = Inr d)"
  proof -
    have "fst (withTouchedGLES e fl (rebuild e fl) ?st3) = None"
      using present withTouchedGLES_rebuild_ok by blast
    then show ?thesis
      by (simp add: incremental_stage_def case_prod_beta)
  qed
  have skip: "fst (iteration e fl cls i st) = SkipTouch \<and> res (snd (iteration e fl cls i st)) = res st"
    if inc: "incBuild fl"
      and unread: "(\<exists>err. os_Stat (world ?st3) (glesAPIPath e fl) = Inl err)
         \<or> (\<exists>err. ReadFile e (world ?st3) (glesAPIPath e fl) = Inl err)"
  proof -
    obtain err2 where "withTouchedGLES e fl (rebuild e fl) ?st3 = (Some err2, ?st3)"
      using withTouchedGLES_fails [OF unread] by blast
    then have "incremental_stage e fl ?st3 = (Some SkipTouch, ?st3)"
      using inc by (simp add: incremental_stage_def)
    then have "iteration e fl cls i st = (SkipTouch, ?st3)"
      using built stage(1) by (simp add: iteration_def case_prod_beta)
    then show ?thesis using res3 by simp
  qed
  have kept: "\<not> incBuild fl
        \<or> ((\<exists>fi. os_Stat (world ?st3) (glesAPIPath e fl) = Inr fi)
           \<and> (\<exists>d. ReadFile e (world ?st3) (glesAPIPath e fl) = Inr d)) \<longrightarrow>
      fst (iteration e fl cls i st) = Recorded
      \<and> (\<exists>r. res (snd (iteration e fl cls i st)) = res st @ [r]
            \<and> CaptureStats r = \<lparr>Frames = 0, DrawCalls = 0, Commands = 0\<rparr>)"
  proof
    assume "\<not> incBuild fl
        \<or> ((\<exists>fi. os_Stat (world ?st3) (glesAPIPath e fl) = Inr fi)
           \<and> (\<exists>d. ReadFile e (world ?st3) (glesAPIPath e fl) = Inr d))"
    then have "fst (incremental_stage e fl ?st3) = None"
      using off readable by blast
    then show "fst (iteration e fl cls i st) = Recorded
      \<and> (\<exists>r. res (snd (iteration e fl cls i st)) = res st @ [r]
            \<and> CaptureStats r = \<lparr>Frames = 0, DrawCalls = 0, Commands = 0\<rparr>)"
      by (rule rec)
  qed
  have dropped: "incBuild fl
        \<and> ((\<exists>err. os_Stat (world ?st3) (glesAPIPath e fl) = Inl err)
           \<or> (\<exists>err. ReadFile e (world ?st3) (glesAPIPath e fl) = Inl err)) \<longrightarrow>
      fst (iteration e fl cls i st) = SkipTouch \<and> res (snd (iteration e fl cls i st)) = res st"
  proof
    assume h: "incBuild fl
        \<and> ((\<exists>err. os_Stat (world ?st3) (glesAPIPath e fl) = Inl err)
           \<or> (\<exists>err. ReadFile e (world ?st3) (glesAPIPath e fl) = Inl err))"
    show "fst (iteration e fl cls i st) = SkipTouch \<and> res (snd (iteration e fl cls i st)) = res st"
      using skip [OF conjunct1 [OF h] conjunct2 [OF h]] .
  qed
  show ?thesis
  proof (intro conjI)
    show "fst (captureStats e fl tf (st2\<lparr>removes := tf # removes st2\<rparr>)) = (0, 0, 0, None)"
      by (rule zero)
    show "fst (capture_stage e fl st1) = None"
      by (rule stage(1))
    show "CaptureStats (cur ?st3) = \<lparr>Frames = 0, DrawCalls = 0, Commands = 0\<rparr>"
      by (rule stage(2))
    show "\<not> incBuild fl
        \<or> ((\<exists>fi. os_Stat (world ?st3) (glesAPIPath e fl) = Inr fi)
           \<and> (\<exists>d. ReadFile e (world ?st3) (glesAPIPath e fl) = Inr d)) \<longrightarrow>
      fst (iteration e fl cls i st) = Recorded
      \<and> (\<exists>r. res (snd (iteration e fl cls i st)) = res st @ [r]
            \<and> CaptureStats r = \<lparr>Frames = 0, DrawCalls = 0, Commands = 0\<rparr>)"
      by (rule kept)
    show "incBuild fl
        \<and> ((\<exists>err. os_Stat (world ?st3) (glesAPIPath e fl) = Inl err)
           \<or> (\<exists>err. ReadFile e (world ?st3) (glesAPIPath e fl) = Inl err)) \<longrightarrow>
      fst (iteration e fl cls i st) = SkipTouch \<and> res (snd (iteration e fl cls i st)) = res st"
      by (rule dropped)
  qed
qed

theorem C8_stats_failure_zero_counts_witness:
  "fst (iteration (test_env bad_stats) (test_flags True ''game'') test_history 0
          (test_state test_world)) = Recorded
   \<and> (\<exists>r. res (snd (iteration (test_env bad_stats) (test_flags True ''game'') test_history 0
                 (test_state test_world))) = [r]
         \<and> CaptureStats r = \<lparr>Frames = 0, DrawCalls = 0, Commands = 0\<rparr>)
   \<and> fst (iteration (test_env bad_stats) (test_flags True ''game'') test_history 0
          (test_state bare_world)) = SkipTouch
   \<and> res (snd (iteration (test_env bad_stats) (test_flags True ''game'') test_history 0
          (test_state bare_world))) = []"
proof -
  let ?e = "test_env bad_stats"
  let ?fl = "test_flags True ''game''"
  let ?p = "glesAPIPath ?e ?fl"
  have filter: "pkg ?fl \<noteq> []"
    by (simp add: test_flags_def)
  have inc: "incBuild ?fl"
    by (simp add: test_flags_def)
  have recorded: "fst (iteration ?e ?fl test_history 0 (test_state test_world)) = Recorded
      \<and> (\<exists>r. res (snd (iteration ?e ?fl test_history 0 (test_state test_world))) = [r]
            \<and> CaptureStats r = \<lparr>Frames = 0, DrawCalls = 0, Commands = 0\<rparr>)"
  proof -
    let ?st = "test_state test_world"
    let ?st1 = "snd (build_stage ?e ?fl test_history 0 ?st)"
    let ?st2 = "snd (trace ?e ?fl ?st1)"
    have b: "fst (build_stage ?e ?fl test_history 0 ?st) = None"
      by code_simp
    have built: "build_stage ?e ?fl test_history 0 ?st = (None, ?st1)"
      using b by (simp add: prod_eq_iff)
    have t: "fst (trace ?e ?fl ?st1) = (''/tmp/gapid-regres.gfxtrace'', None)"
      by code_simp
    have traced: "trace ?e ?fl ?st1 = ((''/tmp/gapid-regres.gfxtrace'', None), ?st2)"
      using t by (simp only: prod_eq_iff fst_conv snd_conv simp_thms)
    have failed: "snd (fst (shell_Call ?e (stats_cmd ?e ?fl ''/tmp/gapid-regres.gfxtrace'') (world ?st2)))
        = Some (Error ''exit status 1'')"
      by code_simp
    have present: "os_Stat (world (snd (capture_stage ?e ?fl ?st1))) ?p = Inr \<lparr>Size = 3, Mode = 420\<rparr>"
      "ReadFile ?e (world (snd (capture_stage ?e ?fl ?st1))) ?p = Inr ''api''"
      by code_simp+
    have start: "res ?st = []"
      by (simp add: test_state_def)
    note all = C8_stats_failure_zero_counts [OF filter built traced failed]
    note kept = all [THEN conjunct2, THEN conjunct2, THEN conjunct2, THEN conjunct1]
    have "fst (iteration ?e ?fl test_history 0 ?st) = Recorded
        \<and> (\<exists>r. res (snd (iteration ?e ?fl test_history 0 ?st)) = res ?st @ [r]
              \<and> CaptureStats r = \<lparr>Frames = 0, DrawCalls = 0, Commands = 0\<rparr>)"
    proof (rule mp [OF kept])
      show "\<not> incBuild ?fl
        \<or> ((\<exists>fi. os_Stat (world (snd (capture_stage ?e ?fl ?st1))) ?p = Inr fi)
           \<and> (\<exists>d. ReadFile ?e (world (snd (capture_stage ?e ?fl ?st1))) ?p = Inr d))"
        using present by blast
    qed
    then show ?thesis
      unfolding start append_Nil .
  qed
  have skipped: "fst (iteration ?e ?fl test_history 0 (test_state bare_world)) = SkipTouch
      \<and> res (snd (iteration ?e ?fl test_history 0 (test_state bare_world))) = []"
  proof -
    let ?st = "test_state bare_world"
    let ?st1 = "snd (build_stage ?e ?fl test_history 0 ?st)"
    let ?st2 = "snd (trace ?e ?fl ?st1)"
    have b: "fst (build_stage ?e ?fl test_history 0 ?st) = None"
      by code_simp
    have built: "build_stage ?e ?fl test_history 0 ?st = (None, ?st1)"
      using b by (simp add: prod_eq_iff)
    have t: "fst (trace ?e ?fl ?st1) = (''/tmp/gapid-regres.gfxtrace'', None)"
      by code_simp
    have traced: "trace ?e ?fl ?st1 = ((''/tmp/gapid-regres.gfxtrace'', None), ?st2)"
      using t by (simp only: prod_eq_iff fst_conv snd_conv simp_thms)
    have failed: "snd (fst (shell_Call ?e (stats_cmd ?e ?fl ''/tmp/gapid-regres.gfxtrace'') (world ?st2)))
        = Some (Error ''exit status 1'')"
      by code_simp
    have missing: "os_Stat (world (snd (capture_stage ?e ?fl ?st1))) ?p
        = Inl (Error ''no such file or directory'')"
      by code_simp
    have start: "res ?st = []"
      by (simp add: test_state_def)
    note all = C8_stats_failure_zero_counts [OF filter built traced failed]
    note dropped = all [THEN conjunct2, THEN conjunct2, THEN conjunct2, THEN conjunct2]
    have "fst (iteration ?e ?fl test_history 0 ?st) = SkipTouch
        \<and> res (snd (iteration ?e ?fl test_history 0 ?st)) = res ?st"
    proof (rule mp [OF dropped])
      show "incBuild ?fl
        \<and> ((\<exists>err. os_Stat (world (snd (capture_stage ?e ?fl ?st1))) ?p = Inl err)
           \<or> (\<exists>err. ReadFile ?e (world (snd (capture_stage ?e ?fl ?st1))) ?p = Inl err))"
        using inc missing by blast
    qed
    then show ?thesis
      unfolding start .
  qed
  from recorded skipped show ?thesis by blast
qed

text \<open>
  The claim as the specification words it fails: in a tree without the watched file, with
  a workload filter and incremental timing enabled, the first revision is built and
  traced, the call of the stats executable fails and \<open>captureStats\<close> returns zero counters
  and no error, and the revision is still not recorded: the iteration ends at the
  \<open>continue\<close> after \<open>withTouchedGLES\<close>.
\<close>

theorem C8_counterexample:
  "pkg (test_flags True ''game'') \<noteq> []
   \<and> incBuild (test_flags True ''game'')
   \<and> fst (build_stage (test_env bad_stats) (test_flags True ''game'') test_history 0
        (test_state bare_world)) = None
   \<and> fst (trace (test_env bad_stats) (test_flags True ''game'')
        (snd (build_stage (test_env bad_stats) (test_flags True ''game'') test_history 0
                (test_state bare_world)))) = (''/tmp/gapid-regres.gfxtrace'', None)
   \<and> snd (fst (shell_Call (test_env bad_stats)
        (stats_cmd (test_env bad_stats) (test_flags True ''game'') ''/tmp/gapid-regres.gfxtrace'')
        (world (snd (trace (test_env bad_stats) (test_flags True ''game'')
           (snd (build_stage (test_env bad_stats) (test_flags True ''game'') test_history 0
                   (test_state bare_world)))))))) = Some (Error ''exit status 1'')
   \<and> fst (capture_stage (test_env bad_stats) (test_flags True ''game'')
        (snd (build_stage (test_env bad_stats) (test_flags True ''game'') test_history 0
                (test_state bare_world)))) = None
   \<and> fst (iteration (test_env bad_stats) (test_flags True ''game'') test_history 0
        (test_state bare_world)) = SkipTouch
   \<and> res (snd (iteration (test_env bad_stats) (test_flags True ''game'') test_history 0
        (test_state bare_world))) = []"
proof -
  let ?e = "test_env bad_stats"
  let ?fl = "test_flags True ''game''"
  let ?st = "test_state bare_world"
  let ?st1 = "snd (build_stage ?e ?fl test_history 0 ?st)"
  have 1: "pkg ?fl \<noteq> []"
    by (simp add: test_flags_def)
  have 2: "incBuild ?fl"
    by (simp add: test_flags_def)
  have 3: "fst (build_stage ?e ?fl test_history 0 ?st) = None"
    by code_simp
  have 4: "fst (trace ?e ?fl ?st1) = (''/tmp/gapid-regres.gfxtrace'', None)"
    by code_simp
  have 5: "snd (fst (shell_Call ?e (stats_cmd ?e ?fl ''/tmp/gapid-regres.gfxtrace'')
        (world (snd (trace ?e ?fl ?st1))))) = Some (Error ''exit status 1'')"
    by code_simp
  have 6: "fst (capture_stage ?e ?fl ?st1) = None"
    by code_simp
  have 7: "fst (iteration ?e ?fl test_history 0 ?st) = SkipTouch"
    by code_simp
  have 8: "res (snd (iteration ?e ?fl test_history 0 ?st)) = []"
    by code_simp
  show ?thesis
    by (intro conjI) (fact 1 2 3 4 5 6 7 8)+
qed

subsection \<open>The run as a whole\<close>

text \<open>
  C4. Let the checks at the start of \<open>run\<close> pass and \<open>LogFrom\<close> return the window \<open>cls\<close>,
  newest first. If the run ends without error, so that no checkout failed, then the
  revisions it checked out are those of \<open>cls\<close> in reverse order, the oldest first, one
  checkout for each: as many checkouts as the window has revisions.
\<close>

theorem C4_checkouts_oldest_first:
  assumes checked: "prechecks e fl (world st) = Inr (fl1, branch)"
      and listed: "git_LogFrom e (root_dir fl1) (atSHA fl1) (count fl1) (world st) = Inr cls"
      and ok: "fst (run e fl st) = None"
  shows "checkouts (calls (snd (run e fl st))) = checkouts (calls st) @ rev (map SHA_hex cls)
       \<and> length (checkouts (calls (snd (run e fl st)))) = length (checkouts (calls st)) + length cls"
proof -
  let ?s = "st\<lparr>removes := []\<rparr>"
  have run: "run e fl st = (fst (run_main e fl1 ?s), run_deferred e fl1 branch (snd (run_main e fl1 ?s)))"
    using checked by (rule run_after_prechecks)
  have listed': "git_LogFrom e (root_dir fl1) (atSHA fl1) (count fl1) (world ?s) = Inr cls"
    using listed by simp
  have ok': "fst (run_main e fl1 ?s) = None"
    using ok run by simp
  obtain st1 where loop: "run_loop e fl1 cls [0..<length cls]
        (?s\<lparr>rnd := now (world ?s) div 1000000000, res := []\<rparr>) = (None, st1)"
      and main: "snd (run_main e fl1 ?s) = print_report fl1 st1"
    using run_main_ok [OF listed' ok'] by blast
  have "checkouts (calls st1) =
      checkouts (calls st) @ map (\<lambda>i. SHA_hex (cls ! (length cls - 1 - i))) [0..<length cls]"
    using run_loop_checkouts [OF loop] by simp
  also have "map (\<lambda>i. SHA_hex (cls ! (length cls - 1 - i))) [0..<length cls] =
      map SHA_hex (map (\<lambda>i. cls ! (length cls - 1 - i)) [0..<length cls])"
    by simp
  also have "\<dots> = rev (map SHA_hex cls)"
    by (simp only: rev_by_index rev_map)
  finally have "checkouts (calls st1) = checkouts (calls st) @ rev (map SHA_hex cls)" .
  then have "checkouts (calls (snd (run e fl st))) = checkouts (calls st) @ rev (map SHA_hex cls)"
    using run main by simp
  then show ?thesis by simp
qed

theorem C4_checkouts_oldest_first_witness:
  "checkouts (calls (snd (run (test_env bad_build) (test_flags True []) (test_state test_world)))) =
     [''aaaaaaaaaaaaaaaaaaaaaaaaaaaaaaaaaaaaaaaa'', ''bbbbbbbbbbbbbbbbbbbbbbbbbbbbbbbbbbbbbbbb'',
      ''cccccccccccccccccccccccccccccccccccccccc'']
   \<and> length (checkouts (calls (snd (run (test_env bad_build) (test_flags True [])
        (test_state test_world))))) = 3"
proof -
  let ?e = "test_env bad_build"
  let ?fl = "test_flags True []"
  let ?st = "test_state test_world"
  have checked: "prechecks ?e ?fl (world ?st) = Inr (?fl, ''master'')"
    by (simp add: prechecks_def test_env_def test_flags_def test_state_def test_world_def)
  have listed: "git_LogFrom ?e (root_dir ?fl) (atSHA ?fl) (count ?fl) (world ?st) = Inr test_history"
    by (simp add: test_env_def test_flags_def test_history_def)
  have ok: "fst (run ?e ?fl ?st) = None"
    by code_simp
  have start: "checkouts (calls ?st) = []"
    by (simp add: test_state_def)
  have window: "rev (map SHA_hex test_history) =
     [''aaaaaaaaaaaaaaaaaaaaaaaaaaaaaaaaaaaaaaaa'', ''bbbbbbbbbbbbbbbbbbbbbbbbbbbbbbbbbbbbbbbb'',
      ''cccccccccccccccccccccccccccccccccccccccc'']"
    "length test_history = 3"
    by (simp_all add: test_history_def)
  show ?thesis
    using C4_checkouts_oldest_first [OF checked listed ok]
    unfolding start window by simp
qed

text \<open>
  C6. Once the checks at the start of \<open>run\<close> have passed and the current branch is
  recorded, the run asks for that branch to be checked out exactly once, as its last
  request, however the loop went: past skipped revisions, after a failed \<open>LogFrom\<close> and
  after a fatal checkout error alike. The working tree is then on the recorded branch,
  given that the version-control client does what \<open>CheckoutBranch\<close> asks of it (the code
  drops the result of the deferred call). A run that a check stops before the branch is
  recorded changes nothing at all.
\<close>

theorem C6_branch_restored_once:
  "(prechecks e fl (world st) = Inr (fl1, branch) \<longrightarrow>
      git_CurrentBranch e (root_dir fl1) (world st) = Inr branch
      \<and> branch_checkouts (calls (snd (run e fl st))) = branch_checkouts (calls st) @ [branch]
      \<and> last (calls (snd (run e fl st))) = EvCheckoutBranch branch
      \<and> ((\<forall>w. active_branch (snd (git_CheckoutBranch e (root_dir fl1) branch w)) = branch) \<longrightarrow>
           active_branch (world (snd (run e fl st))) = branch))
   \<and> (prechecks e fl (world st) = Inl err \<longrightarrow> run e fl st = (Some err, st))"
proof -
  have recorded: "git_CurrentBranch e (root_dir fl1) (world st) = Inr branch"
    if "prechecks e fl (world st) = Inr (fl1, branch)"
    using that
    by (auto simp: prechecks_def split: sum.splits option.splits if_splits)
  have restored: "branch_checkouts (calls (snd (run e fl st))) = branch_checkouts (calls st) @ [branch]
      \<and> last (calls (snd (run e fl st))) = EvCheckoutBranch branch
      \<and> ((\<forall>w. active_branch (snd (git_CheckoutBranch e (root_dir fl1) branch w)) = branch) \<longrightarrow>
           active_branch (world (snd (run e fl st))) = branch)"
    if checked: "prechecks e fl (world st) = Inr (fl1, branch)"
  proof -
    have "branch_checkouts (calls (snd (run_main e fl1 (st\<lparr>removes := []\<rparr>)))) =
        branch_checkouts (calls st)"
      using run_main_frame [of e fl1 "st\<lparr>removes := []\<rparr>"] by simp
    then show ?thesis
      by (simp add: run_after_prechecks [OF checked])
  qed
  have stopped: "run e fl st = (Some err, st)" if "prechecks e fl (world st) = Inl err"
    using that by (simp add: run_def)
  from recorded restored stopped show ?thesis by blast
qed

theorem C6_branch_restored_once_witness:
  "branch_checkouts (calls (snd (run (test_env bad_build) (test_flags True []) (test_state test_world))))
     = [''master'']
   \<and> last (calls (snd (run (test_env bad_build) (test_flags True []) (test_state test_world))))
       = EvCheckoutBranch ''master''
   \<and> active_branch (world (snd (run (test_env bad_build) (test_flags True []) (test_state test_world))))
       = ''master''"
proof -
  let ?e = "test_env bad_build"
  let ?fl = "test_flags True []"
  let ?st = "test_state test_world"
  have checked: "prechecks ?e ?fl (world ?st) = Inr (?fl, ''master'')"
    by (simp add: prechecks_def test_env_def test_flags_def test_state_def test_world_def)
  have client: "\<forall>w. active_branch (snd (git_CheckoutBranch ?e (root_dir ?fl) ''master'' w)) = ''master''"
    by (simp add: test_env_def)
  have start: "branch_checkouts (calls ?st) = []"
    by (simp add: test_state_def)
  show ?thesis
    using C6_branch_restored_once [of ?e ?fl ?st ?fl "''master''"] checked client
    unfolding start by simp
qed


end
